theory Spec2Isabelle
  imports Main "HOL-Library.Char_ord" "HOL-Library.List_Lexorder" "HOL-Library.Multiset"
    "HOL-Library.Sublist"
begin

section \<open>Exceptions\<close>

text \<open>
  The script raises two exception classes of its own, \<open>ConfigError\<close> and \<open>SheetError\<close>,
  each with a formatted message. The message is kept as a tag that names the
  \<open>raise\<close> statement it comes from. Every other constructor is a subclass of Python's
  \<open>Exception\<close> raised by the interpreter or by a library. \<open>KeyboardInterrupt\<close> is not a
  subclass of \<open>Exception\<close> and is kept apart (see the scheduler loop).
\<close>

datatype config_problem =
    MissingKeys "string list"
  | ConfigFileNotFound
  | InvalidConfigJSON
  | FailedProjectInfo
  | InvalidServiceAccountFile

datatype sheet_problem =
    FailedToAuthenticate
  | SpreadsheetNotFoundNamed string
  | FailedToOpen
  | FailedToInitialize
  | FailedToSync

datatype exc =
    KeyError string
  | TypeError
  | ValueError
  | OverflowError
  | AttributeError
  | IndexError
  | PermissionError
  | RuntimeError
  | APIError
  | CommError
  | WorksheetNotFound
  | ConfigError config_problem
  | SheetError sheet_problem

section \<open>Values read from the configuration file and from a run\<close>

text \<open>
  What \<open>json.load\<close> returns. An object is an association list; a key is looked up
  with \<open>map_of\<close>. A float is given by the decimal it is printed as, mantissa and
  exponent of ten.
\<close>

datatype json =
    JNull
  | JBool bool
  | JInt int
  | JFloat int int
  | JStr string
  | JArr "json list"
  | JObj "(string \<times> json) list"

text \<open>
  A value stored in a run's \<open>config\<close> or \<open>summary\<close>. The script applies two operations
  to such a value: \<open>str\<close> and \<open>datetime.fromtimestamp\<close>. \<open>VFloat m e\<close> is the finite
  float whose shortest decimal that reads back as the same float (what \<open>repr\<close>
  prints) is \<open>m * 10 ^ e\<close>, with \<open>m\<close> not divisible by ten unless it is zero.
  \<open>VObj r\<close> is any other object (a list, a nested mapping, an object of the tracking
  library), given by what \<open>str\<close> of it returns or raises; it is not a number.
\<close>

datatype pyval =
    VInt int
  | VFloat int int
  | VStr string
  | VBool bool
  | VNone
  | VObj "exc + string"

text \<open>
  A run as the script reads it: \<open>run.id\<close>, \<open>run.state\<close>, \<open>run.user.name\<close>, and the two
  mappings \<open>run.config\<close> and \<open>run.summary\<close>. Reading either mapping can raise (the
  tracking library loads the summary lazily over the network), hence the sum type.
\<close>

record run =
  run_id :: string
  state :: string
  user_name :: string
  config :: "exc + (string \<rightharpoonup> pyval)"
  summary :: "exc + (string \<rightharpoonup> pyval)"

section \<open>Python's \<open>str\<close>\<close>

definition digit_char :: "nat \<Rightarrow> char" where
  "digit_char n = ''0123456789'' ! (n mod 10)"

fun dec_digits :: "nat \<Rightarrow> string" where
  "dec_digits n = (if n < 10 then [digit_char n] else dec_digits (n div 10) @ [digit_char n])"

declare dec_digits.simps [simp del]

definition str_int :: "int \<Rightarrow> string" where
  "str_int i = (if i < 0 then CHR ''-'' # dec_digits (nat (- i)) else dec_digits (nat i))"

definition zero_pad :: "nat \<Rightarrow> string \<Rightarrow> string" where
  "zero_pad w s = replicate (w - length s) CHR ''0'' @ s"

text \<open>
  \<open>repr\<close> of a finite float from its shortest digits \<open>ds\<close> and the position \<open>decpt\<close> of
  the decimal point relative to the first digit: fixed notation when
  \<open>-4 < decpt \<le> 16\<close>, scientific notation with an exponent of at least two digits
  otherwise.
\<close>

definition str_float :: "int \<Rightarrow> int \<Rightarrow> string" where
  "str_float m e =
     (let ds = dec_digits (nat \<bar>m\<bar>);
          n = int (length ds);
          decpt = n + e;
          sign = (if m < 0 then ''-'' else '''');
          body =
            (if - 4 < decpt \<and> decpt \<le> 16 then
               (if decpt \<le> 0 then ''0.'' @ replicate (nat (- decpt)) CHR ''0'' @ ds
                else if n \<le> decpt then ds @ replicate (nat (decpt - n)) CHR ''0'' @ ''.0''
                else take (nat decpt) ds @ ''.'' @ drop (nat decpt) ds)
             else
               take 1 ds @ (if 1 < n then ''.'' @ drop 1 ds else '''') @ ''e''
                 @ (if decpt - 1 < 0 then ''-'' else ''+'')
                 @ zero_pad 2 (dec_digits (nat \<bar>decpt - 1\<bar>)))
      in sign @ body)"

fun py_str :: "pyval \<Rightarrow> exc + string" where
  "py_str (VInt i) = Inr (str_int i)"
| "py_str (VFloat m e) = Inr (str_float m e)"
| "py_str (VStr s) = Inr s"
| "py_str (VBool b) = Inr (if b then ''True'' else ''False'')"
| "py_str VNone = Inr ''None''"
| "py_str (VObj r) = r"

section \<open>\<open>datetime.fromtimestamp\<close> and \<open>strftime\<close>\<close>

text \<open>
  A naive \<open>datetime\<close>, as \<open>fromtimestamp\<close> without a time zone argument returns it:
  the wall-clock reading in the local zone of the process.
\<close>

record datetime =
  year :: int
  month :: int
  day :: int
  hour :: int
  minute :: int
  second :: int

text \<open>
  The proleptic Gregorian date of the day that is \<open>z\<close> days after 1970-01-01,
  computed era by era (an era is 400 years, 146097 days, and starts on 1 March).
\<close>

definition civil_from_days :: "int \<Rightarrow> int \<times> int \<times> int" where
  "civil_from_days z =
     (let z0 = z + 719468;
          era = z0 div 146097;
          doe = z0 mod 146097;
          yoe = (doe - doe div 1460 + doe div 36524 - doe div 146096) div 365;
          doy = doe - (365 * yoe + yoe div 4 - yoe div 100);
          mp = (5 * doy + 2) div 153;
          d = doy - (153 * mp + 2) div 5 + 1;
          m = (if mp < 10 then mp + 3 else mp - 9);
          y = yoe + era * 400 + (if m \<le> 2 then 1 else 0)
      in (y, m, d))"

definition datetime_of_seconds :: "int \<Rightarrow> datetime" where
  "datetime_of_seconds s =
     (let (y, m, d) = civil_from_days (s div 86400);
          r = s mod 86400
      in \<lparr>year = y, month = m, day = d,
          hour = r div 3600, minute = (r mod 3600) div 60, second = r mod 60\<rparr>)"

text \<open>
  Rounding to the nearest integer, ties to even, of \<open>m * 10 ^ k\<close> for an integer \<open>k\<close>
  of either sign.
\<close>

definition round_half_even_scaled :: "int \<Rightarrow> int \<Rightarrow> int" where
  "round_half_even_scaled m k =
     (if 0 \<le> k then m * 10 ^ nat k
      else let q = 10 ^ nat (- k); x = m div q; r = m mod q
           in if 2 * r < q then x
              else if q < 2 * r then x + 1
              else if even x then x else x + 1)"

text \<open>
  The whole second a timestamp falls in. An \<open>int\<close> (and a \<open>bool\<close>, which is an \<open>int\<close>)
  is taken as it is. A float is rounded to the microsecond, ties to even, and the
  microseconds are then split off; the model does this on the decimal \<open>m * 10 ^ e\<close>,
  which agrees with the binary float except for values within rounding error of
  half a microsecond below a whole second. Anything else is a \<open>TypeError\<close>.
\<close>

fun timestamp_seconds :: "pyval \<Rightarrow> exc + int" where
  "timestamp_seconds (VInt i) = Inr i"
| "timestamp_seconds (VBool b) = Inr (if b then 1 else 0)"
| "timestamp_seconds (VFloat m e) = Inr (round_half_even_scaled m (e + 6) div 1000000)"
| "timestamp_seconds (VStr s) = Inl TypeError"
| "timestamp_seconds VNone = Inl TypeError"
| "timestamp_seconds (VObj r) = Inl TypeError"

text \<open>
  \<open>datetime.fromtimestamp(t)\<close>: local time. \<open>utcoff\<close> is the offset of the local zone
  from UTC, in seconds east, in force at the instant \<open>t\<close>. A date outside the
  years 1 to 9999 raises (the exact boundary depends on the platform's C library;
  the script's caller turns every such exception into the empty string).
\<close>

definition fromtimestamp :: "int \<Rightarrow> pyval \<Rightarrow> exc + datetime" where
  "fromtimestamp utcoff v =
     (case timestamp_seconds v of
        Inl e \<Rightarrow> Inl e
      | Inr t \<Rightarrow>
          (let dt = datetime_of_seconds (t + utcoff)
           in if 1 \<le> year dt \<and> year dt \<le> 9999 then Inr dt else Inl ValueError))"

definition two_digits :: "int \<Rightarrow> string" where
  "two_digits i = zero_pad 2 (dec_digits (nat i))"

definition four_digits :: "int \<Rightarrow> string" where
  "four_digits i = zero_pad 4 (dec_digits (nat i))"

text \<open>\<open>strftime("%Y-%m-%d %H:%M:%S")\<close>\<close>

definition strftime_row :: "datetime \<Rightarrow> string" where
  "strftime_row dt =
     four_digits (year dt) @ ''-'' @ two_digits (month dt) @ ''-'' @ two_digits (day dt)
       @ '' '' @ two_digits (hour dt) @ '':'' @ two_digits (minute dt)
       @ '':'' @ two_digits (second dt)"

text \<open>\<open>strftime('%Y%m%d_%H%M%S')\<close>\<close>

definition strftime_title :: "datetime \<Rightarrow> string" where
  "strftime_title dt =
     four_digits (year dt) @ two_digits (month dt) @ two_digits (day dt)
       @ ''_'' @ two_digits (hour dt) @ two_digits (minute dt) @ two_digits (second dt)"

section \<open>\<open>get_timestamp\<close> and \<open>get_run_value\<close>\<close>

text \<open>
  The body of the \<open>try\<close> in \<open>get_timestamp\<close>: the conditional expression tests
  \<open>"_timestamp" in run.summary\<close> first.
\<close>

definition get_timestamp_try :: "int \<Rightarrow> run \<Rightarrow> exc + string" where
  "get_timestamp_try utcoff r =
     (case summary r of
        Inl e \<Rightarrow> Inl e
      | Inr s \<Rightarrow>
          (case s ''_timestamp'' of
             None \<Rightarrow> Inr ''''
           | Some v \<Rightarrow>
               (case fromtimestamp utcoff v of
                  Inl e \<Rightarrow> Inl e
                | Inr dt \<Rightarrow> Inr (strftime_row dt))))"

text \<open>\<open>except Exception: return ""\<close>\<close>

definition get_timestamp :: "int \<Rightarrow> run \<Rightarrow> exc + string" where
  "get_timestamp utcoff r =
     (case get_timestamp_try utcoff r of Inl e \<Rightarrow> Inr '''' | Inr s \<Rightarrow> Inr s)"

text \<open>
  \<open>key in mapping\<close> followed by \<open>mapping[key]\<close>, for a key that comes from the
  configuration file. The mappings of a run have string keys: a list or an object
  as key is unhashable (\<open>TypeError\<close>), any other key that is not a string is absent.
\<close>

fun lookup_key :: "(string \<rightharpoonup> pyval) \<Rightarrow> json \<Rightarrow> exc + pyval option" where
  "lookup_key m (JStr k) = Inr (m k)"
| "lookup_key m (JArr xs) = Inl TypeError"
| "lookup_key m (JObj kvs) = Inl TypeError"
| "lookup_key m JNull = Inr None"
| "lookup_key m (JBool b) = Inr None"
| "lookup_key m (JInt i) = Inr None"
| "lookup_key m (JFloat a b) = Inr None"

definition get_run_value_try :: "run \<Rightarrow> json \<Rightarrow> exc + string" where
  "get_run_value_try r key =
     (case config r of
        Inl e \<Rightarrow> Inl e
      | Inr c \<Rightarrow>
          (case lookup_key c key of
             Inl e \<Rightarrow> Inl e
           | Inr (Some v) \<Rightarrow> py_str v
           | Inr None \<Rightarrow>
               (case summary r of
                  Inl e \<Rightarrow> Inl e
                | Inr s \<Rightarrow>
                    (case lookup_key s key of
                       Inl e \<Rightarrow> Inl e
                     | Inr (Some v) \<Rightarrow> py_str v
                     | Inr None \<Rightarrow> Inr ''''))))"

definition get_run_value :: "run \<Rightarrow> json \<Rightarrow> exc + string" where
  "get_run_value r key =
     (case get_run_value_try r key of Inl e \<Rightarrow> Inr '''' | Inr s \<Rightarrow> Inr s)"

section \<open>\<open>process_runs\<close>\<close>

text \<open>
  \<open>final_headers[3:]\<close>, then iteration over it. \<open>main\<close> passes whatever the
  configuration file holds under \<open>FIXED_HEADERS\<close>: a list is sliced, a string is
  sliced and iterated character by character, and nothing else can be sliced.
\<close>

fun header_tail :: "json \<Rightarrow> exc + json list" where
  "header_tail (JArr hs) = Inr (drop 3 hs)"
| "header_tail (JStr s) = Inr (map (\<lambda>c. JStr [c]) (drop 3 s))"
| "header_tail (JObj kvs) = Inl TypeError"
| "header_tail JNull = Inl TypeError"
| "header_tail (JBool b) = Inl TypeError"
| "header_tail (JInt i) = Inl TypeError"
| "header_tail (JFloat a b) = Inl TypeError"

text \<open>The inner loop: \<open>row_data.append(get_run_value(run, key))\<close> for each key.\<close>

fun append_values :: "run \<Rightarrow> json list \<Rightarrow> string list \<Rightarrow> exc + string list" where
  "append_values r [] row_data = Inr row_data"
| "append_values r (key # keys) row_data =
     (case get_run_value r key of
        Inl e \<Rightarrow> Inl e
      | Inr v \<Rightarrow> append_values r keys (row_data @ [v]))"

text \<open>The body of the \<open>try\<close> in \<open>process_runs\<close>, up to the finished row.\<close>

definition build_row :: "int \<Rightarrow> run \<Rightarrow> json \<Rightarrow> exc + string list" where
  "build_row utcoff r final_headers =
     (case get_timestamp utcoff r of
        Inl e \<Rightarrow> Inl e
      | Inr ts \<Rightarrow>
          (case header_tail final_headers of
             Inl e \<Rightarrow> Inl e
           | Inr keys \<Rightarrow> append_values r keys [run_id r, ts, user_name r]))"

text \<open>
  The outer loop, with \<open>rows_to_add\<close> as accumulator. A run whose row raises is
  logged and skipped (\<open>continue\<close>).
\<close>

fun process_runs_loop ::
  "int \<Rightarrow> run list \<Rightarrow> string list \<Rightarrow> json \<Rightarrow> string \<Rightarrow> string list list \<Rightarrow> string list list"
where
  "process_runs_loop utcoff [] run_id_list final_headers user rows_to_add = rows_to_add"
| "process_runs_loop utcoff (r # runs) run_id_list final_headers user rows_to_add =
     (if state r = ''running'' \<and> run_id r \<notin> set run_id_list then
        (if user_name r = user then
           (case build_row utcoff r final_headers of
              Inr row_data \<Rightarrow>
                process_runs_loop utcoff runs run_id_list final_headers user
                  (rows_to_add @ [row_data])
            | Inl e \<Rightarrow>
                process_runs_loop utcoff runs run_id_list final_headers user rows_to_add)
         else process_runs_loop utcoff runs run_id_list final_headers user rows_to_add)
      else process_runs_loop utcoff runs run_id_list final_headers user rows_to_add)"

definition process_runs ::
  "int \<Rightarrow> run list \<Rightarrow> string list \<Rightarrow> json \<Rightarrow> string \<Rightarrow> string list list"
where
  "process_runs utcoff runs run_id_list final_headers user =
     process_runs_loop utcoff runs run_id_list final_headers user []"

section \<open>\<open>load_config\<close>\<close>

text \<open>
  What \<open>open(path)\<close> followed by \<open>json.load\<close> gives: \<open>FileNotFoundError\<close>,
  \<open>json.JSONDecodeError\<close>, any other exception (no permission, a directory, bytes that
  are not text), or the parsed value.
\<close>

datatype file_result = NoSuchFile | NotJSON | OpenFails exc | Parsed json

text \<open>
  \<open>key in cfg\<close> for a string \<open>key\<close>: membership among the keys of an object, among
  the elements of a list, substring test on a string; the other values are not
  containers.
\<close>

fun py_in :: "string \<Rightarrow> json \<Rightarrow> exc + bool" where
  "py_in k (JObj kvs) = Inr (map_of kvs k \<noteq> None)"
| "py_in k (JArr xs) = Inr (JStr k \<in> set xs)"
| "py_in k (JStr s) = Inr (sublist k s)"
| "py_in k JNull = Inl TypeError"
| "py_in k (JBool b) = Inl TypeError"
| "py_in k (JInt i) = Inl TypeError"
| "py_in k (JFloat a b) = Inl TypeError"

text \<open>\<open>cfg[key]\<close> for a string \<open>key\<close>: only an object can be indexed by a string.\<close>

fun py_getitem :: "json \<Rightarrow> string \<Rightarrow> exc + json" where
  "py_getitem (JObj kvs) k = (case map_of kvs k of None \<Rightarrow> Inl (KeyError k) | Some v \<Rightarrow> Inr v)"
| "py_getitem (JArr xs) k = Inl TypeError"
| "py_getitem (JStr s) k = Inl TypeError"
| "py_getitem JNull k = Inl TypeError"
| "py_getitem (JBool b) k = Inl TypeError"
| "py_getitem (JInt i) k = Inl TypeError"
| "py_getitem (JFloat a b) k = Inl TypeError"

definition required_keys :: "string list" where
  "required_keys = [''GCP_JSON'', ''FIXED_HEADERS'']"

text \<open>\<open>[key for key in required_keys if key not in config]\<close>\<close>

fun missing_keys :: "string list \<Rightarrow> json \<Rightarrow> exc + string list" where
  "missing_keys [] cfg = Inr []"
| "missing_keys (key # keys) cfg =
     (case py_in key cfg of
        Inl e \<Rightarrow> Inl e
      | Inr present \<Rightarrow>
          (case missing_keys keys cfg of
             Inl e \<Rightarrow> Inl e
           | Inr ms \<Rightarrow> Inr (if present then ms else key # ms)))"

text \<open>
  The handler around the two project keys: \<open>except ConfigError as e: raise
  ConfigError(...)\<close>. It matches \<open>ConfigError\<close> only; any other exception passes
  through unchanged.
\<close>

definition project_info_handler :: "exc \<Rightarrow> exc" where
  "project_info_handler e =
     (case e of ConfigError p \<Rightarrow> ConfigError FailedProjectInfo | _ \<Rightarrow> e)"

definition load_config :: "file_result \<Rightarrow> exc + json" where
  "load_config f =
     (case f of
        NoSuchFile \<Rightarrow> Inl (ConfigError ConfigFileNotFound)
      | NotJSON \<Rightarrow> Inl (ConfigError InvalidConfigJSON)
      | OpenFails e \<Rightarrow> Inl e
      | Parsed cfg \<Rightarrow>
          (case missing_keys required_keys cfg of
             Inl e \<Rightarrow> Inl e
           | Inr ms \<Rightarrow>
               if ms \<noteq> [] then Inl (ConfigError (MissingKeys ms))
               else
                 (case py_getitem cfg ''TEAM_NAME'' of
                    Inl e \<Rightarrow> Inl (project_info_handler e)
                  | Inr team_name \<Rightarrow>
                      (case py_getitem cfg ''PROJECT_NAME'' of
                         Inl e \<Rightarrow> Inl (project_info_handler e)
                       | Inr project_name \<Rightarrow> Inr cfg))))"

section \<open>The spreadsheet service and the rest of the environment\<close>

text \<open>
  A worksheet: its title, its grid size, and \<open>cells\<close>, what \<open>get_all_values()\<close>
  returns (the rows down to the last one with content; empty for a blank
  worksheet).
\<close>

record worksheet =
  title :: string
  row_count :: nat
  col_count :: nat
  cells :: "string list list"

text \<open>The calls of the script that the properties below count.\<close>

datatype call =
    LoadConfig
  | DeleteWorksheet string
  | AddWorksheet string nat nat
  | AppendRow string "string list"
  | AppendRows string "string list list"

datatype log_entry =
    DeletedOldestSheet string
  | AddedNewRuns nat
  | NoNewRuns
  | ErrorInMain exc
  | StoppedByUser
  | UnexpectedError exc

text \<open>
  Everything outside the process. \<open>read_json\<close> is the file system seen through
  \<open>open\<close> and \<open>json.load\<close>, indexed by the value passed as path. \<open>docs\<close> maps the
  name of a spreadsheet to its worksheets in tab order. The four \<open>_error\<close> fields
  say whether the authorisation, the opening of the spreadsheet, the creation of
  the tracking client and the batch append fail; every other call to the
  spreadsheet service is taken to succeed. \<open>fetch_runs\<close> answers \<open>api.runs\<close> for a
  team and a project. \<open>clock\<close> is the time in seconds since the epoch and
  \<open>utc_offset\<close> the offset of the local zone.
\<close>

record world =
  read_json :: "json \<Rightarrow> file_result"
  auth_error :: "exc option"
  open_error :: "exc option"
  docs :: "string \<rightharpoonup> worksheet list"
  api_error :: "exc option"
  fetch_runs :: "json \<Rightarrow> json \<Rightarrow> exc + run list"
  append_error :: "exc option"
  clock :: int
  utc_offset :: int
  calls :: "call list"
  log :: "log_entry list"

definition record_call :: "call \<Rightarrow> world \<Rightarrow> world" where
  "record_call c w = w\<lparr>calls := calls w @ [c]\<rparr>"

definition write_log :: "log_entry \<Rightarrow> world \<Rightarrow> world" where
  "write_log l w = w\<lparr>log := log w @ [l]\<rparr>"

record args =
  arg_schedule_time :: int
  arg_user_name :: string
  arg_sheet_name :: string
  arg_config_path :: string

section \<open>\<open>init_sheet\<close>\<close>

text \<open>
  \<open>min(..., key=lambda x: x.title)\<close>: the first element with the smallest title.
  Titles are compared character by character, as Python compares strings.
\<close>

fun min_by_title :: "worksheet \<Rightarrow> worksheet list \<Rightarrow> worksheet" where
  "min_by_title best [] = best"
| "min_by_title best (s # ss) = min_by_title (if title s < title best then s else best) ss"

definition not_runs_sheets :: "worksheet list \<Rightarrow> worksheet list" where
  "not_runs_sheets wss = filter (\<lambda>s. \<not> prefix ''runs_'' (title s)) wss"

text \<open>\<open>min\<close> of an empty sequence raises \<open>ValueError\<close>.\<close>

definition oldest_sheet :: "worksheet list \<Rightarrow> exc + worksheet" where
  "oldest_sheet wss =
     (case not_runs_sheets wss of [] \<Rightarrow> Inl ValueError | s # ss \<Rightarrow> Inr (min_by_title s ss))"

text \<open>
  The check of the worksheet limit. The result is the list of worksheets that
  remain and the title of the deleted one, if any.
\<close>

definition evict_oldest :: "worksheet list \<Rightarrow> exc + worksheet list \<times> string option" where
  "evict_oldest wss =
     (if 100 \<le> length wss then
        (case oldest_sheet wss of
           Inl e \<Rightarrow> Inl e
         | Inr s \<Rightarrow> Inr (remove1 s wss, Some (title s)))
      else Inr (wss, None))"

text \<open>\<open>row_values(1)\<close>: the first row without its trailing empty cells.\<close>

definition row_values_1 :: "worksheet \<Rightarrow> string list" where
  "row_values_1 s =
     (case cells s of [] \<Rightarrow> [] | r # rs \<Rightarrow> rev (dropWhile (\<lambda>c. c = []) (rev r)))"

definition new_sheet_name :: "int \<Rightarrow> int \<Rightarrow> string" where
  "new_sheet_name now utcoff = ''runs_'' @ strftime_title (datetime_of_seconds (now + utcoff))"

text \<open>
  The choice of the worksheet to write to. \<open>sheet1\<close> is the first worksheet. The
  result is the list of worksheets, the position of the chosen one in it, and the
  calls made.
\<close>

definition select_worksheet ::
  "int \<Rightarrow> int \<Rightarrow> worksheet list \<Rightarrow> exc + worksheet list \<times> nat \<times> call list"
where
  "select_worksheet now utcoff wss =
     (case wss of
        [] \<Rightarrow> Inl WorksheetNotFound
      | sheet1 # rest \<Rightarrow>
          if 0 < length (cells sheet1) then
            (let name = new_sheet_name now utcoff;
                 rows = min 1000 (row_count sheet1);
                 cols = min 50 (col_count sheet1);
                 header_row = row_values_1 sheet1;
                 created = \<lparr>title = name, row_count = rows, col_count = cols, cells = []\<rparr>
             in if header_row \<noteq> [] then
                  Inr (wss @ [created\<lparr>cells := [header_row]\<rparr>], length wss,
                       [AddWorksheet name rows cols, AppendRow name header_row])
                else Inr (wss @ [created], length wss, [AddWorksheet name rows cols]))
          else Inr (wss, 0, []))"

text \<open>
  The two handlers at the end of \<open>init_sheet\<close>: a \<open>ConfigError\<close> or \<open>SheetError\<close> is
  raised again, anything else becomes a \<open>SheetError\<close>.
\<close>

definition init_sheet_handler :: "exc \<Rightarrow> exc" where
  "init_sheet_handler e =
     (case e of
        ConfigError p \<Rightarrow> e
      | SheetError p \<Rightarrow> e
      | _ \<Rightarrow> SheetError FailedToInitialize)"

text \<open>
  The body of the outer \<open>try\<close>. The result is the position of the worksheet to write
  to, in the spreadsheet named \<open>sheet_name\<close>.
\<close>

definition init_sheet_try :: "string \<Rightarrow> json \<Rightarrow> world \<Rightarrow> (exc + nat) \<times> world" where
  "init_sheet_try sheet_name cfg w =
     (case py_getitem cfg ''GCP_JSON'' of
        Inl e \<Rightarrow> (Inl e, w)
      | Inr gcp_json \<Rightarrow>
     (case read_json w gcp_json of
        NoSuchFile \<Rightarrow> (Inl (ConfigError InvalidServiceAccountFile), w)
      | NotJSON \<Rightarrow> (Inl (ConfigError InvalidServiceAccountFile), w)
      | OpenFails e \<Rightarrow> (Inl e, w)
      | Parsed key_material \<Rightarrow>
     (case auth_error w of
        Some e \<Rightarrow> (Inl (SheetError FailedToAuthenticate), w)
      | None \<Rightarrow>
     (case open_error w of
        Some e \<Rightarrow> (Inl (SheetError FailedToOpen), w)
      | None \<Rightarrow>
     (case docs w sheet_name of
        None \<Rightarrow> (Inl (SheetError (SpreadsheetNotFoundNamed sheet_name)), w)
      | Some wss \<Rightarrow>
     (case evict_oldest wss of
        Inl e \<Rightarrow> (Inl e, w)
      | Inr (wss1, deleted) \<Rightarrow>
          (let w1 =
             (case deleted of
                None \<Rightarrow> w
              | Some t \<Rightarrow>
                  write_log (DeletedOldestSheet t)
                    (record_call (DeleteWorksheet t)
                       (w\<lparr>docs := (docs w)(sheet_name \<mapsto> wss1)\<rparr>)))
           in (case select_worksheet (clock w) (utc_offset w) wss1 of
                 Inl e \<Rightarrow> (Inl e, w1)
               | Inr (wss2, target, cs) \<Rightarrow>
                   (let w2 = w1\<lparr>docs := (docs w1)(sheet_name \<mapsto> wss2),
                                 calls := calls w1 @ cs\<rparr>
                    in (case api_error w of
                          Some e \<Rightarrow> (Inl e, w2)
                        | None \<Rightarrow> (Inr target, w2)))))))))))"

definition init_sheet :: "string \<Rightarrow> json \<Rightarrow> world \<Rightarrow> (exc + nat) \<times> world" where
  "init_sheet sheet_name cfg w =
     (case init_sheet_try sheet_name cfg w of
        (Inl e, w') \<Rightarrow> (Inl (init_sheet_handler e), w')
      | (Inr target, w') \<Rightarrow> (Inr target, w'))"

section \<open>\<open>sync_data\<close> and \<open>main\<close>\<close>

text \<open>\<open>sheet.append_rows(new_rows)\<close> on the worksheet at position \<open>target\<close>.\<close>

definition append_rows :: "string \<Rightarrow> nat \<Rightarrow> string list list \<Rightarrow> world \<Rightarrow> world" where
  "append_rows sheet_name target new_rows w =
     (case docs w sheet_name of
        None \<Rightarrow> w
      | Some wss \<Rightarrow>
          record_call (AppendRows (title (wss ! target)) new_rows)
            (w\<lparr>docs := (docs w)(sheet_name \<mapsto>
                  wss[target := (wss ! target)\<lparr>cells := cells (wss ! target) @ new_rows\<rparr>])\<rparr>))"

definition sync_data ::
  "string \<Rightarrow> nat \<Rightarrow> string list list \<Rightarrow> world \<Rightarrow> (exc + unit) \<times> world"
where
  "sync_data sheet_name target new_rows w =
     (if new_rows \<noteq> [] then
        (case append_error w of
           Some e \<Rightarrow> (Inl (SheetError FailedToSync), w)
         | None \<Rightarrow> (Inr (), append_rows sheet_name target new_rows w))
      else (Inr (), w))"

text \<open>\<open>[row[0] for row in rows]\<close>: a row without cells raises \<open>IndexError\<close>.\<close>

fun first_column :: "string list list \<Rightarrow> exc + string list" where
  "first_column [] = Inr []"
| "first_column ([] # rows) = Inl IndexError"
| "first_column ((c # cs) # rows) =
     (case first_column rows of Inl e \<Rightarrow> Inl e | Inr ids \<Rightarrow> Inr (c # ids))"

text \<open>
  The part of \<open>main\<close> after \<open>init_sheet\<close>: fetch the runs, rebuild the list of synced
  identifiers from the sheet, build the rows, write them.
\<close>

definition sync_cycle :: "args \<Rightarrow> json \<Rightarrow> nat \<Rightarrow> world \<Rightarrow> (exc + unit) \<times> world" where
  "sync_cycle a cfg target w =
     (case py_getitem cfg ''TEAM_NAME'' of
        Inl e \<Rightarrow> (Inl e, w)
      | Inr team_name \<Rightarrow>
     (case py_getitem cfg ''PROJECT_NAME'' of
        Inl e \<Rightarrow> (Inl e, w)
      | Inr project_name \<Rightarrow>
     (case fetch_runs w team_name project_name of
        Inl e \<Rightarrow> (Inl e, w)
      | Inr runs \<Rightarrow>
     (case docs w (arg_sheet_name a) of
        None \<Rightarrow> (Inl WorksheetNotFound, w)
      | Some wss \<Rightarrow>
     (case first_column (drop 1 (cells (wss ! target))) of
        Inl e \<Rightarrow> (Inl e, w)
      | Inr run_id_list \<Rightarrow>
     (case py_getitem cfg ''FIXED_HEADERS'' of
        Inl e \<Rightarrow> (Inl e, w)
      | Inr final_headers \<Rightarrow>
          (let new_rows =
                 process_runs (utc_offset w) runs run_id_list final_headers (arg_user_name a)
           in if new_rows \<noteq> [] then
                (case sync_data (arg_sheet_name a) target new_rows w of
                   (Inl e, w') \<Rightarrow> (Inl e, w')
                 | (Inr u, w') \<Rightarrow> (Inr (), write_log (AddedNewRuns (length new_rows)) w'))
              else (Inr (), write_log NoNewRuns w))))))))"

text \<open>The body of the \<open>try\<close> in \<open>main\<close>.\<close>

definition main_try :: "args \<Rightarrow> world \<Rightarrow> (exc + unit) \<times> world" where
  "main_try a w =
     (let w0 = record_call LoadConfig w
      in (case load_config (read_json w (JStr (arg_config_path a))) of
            Inl e \<Rightarrow> (Inl e, w0)
          | Inr cfg \<Rightarrow>
              (case init_sheet (arg_sheet_name a) cfg w0 of
                 (Inl e, w1) \<Rightarrow> (Inl e, w1)
               | (Inr target, w1) \<Rightarrow> sync_cycle a cfg target w1)))"

text \<open>\<open>except Exception as e\<close>: log and raise again.\<close>

definition main :: "args \<Rightarrow> world \<Rightarrow> (exc + unit) \<times> world" where
  "main a w =
     (case main_try a w of
        (Inl e, w') \<Rightarrow> (Inl e, write_log (ErrorInMain e) w')
      | (Inr u, w') \<Rightarrow> (Inr u, w'))"

section \<open>The scheduler loop\<close>

text \<open>
  The loop runs until it is interrupted, so the model is driven by the finite list
  of its first iterations. An iteration is given by what the environment does
  during it: \<open>fire_at\<close> is the time at which the job is due in this call of
  \<open>schedule.run_pending()\<close>, if it is; \<open>sigint_in_sleep\<close> says that the interrupt signal
  arrives during \<open>time.sleep(1)\<close> inside the \<open>try\<close>; \<open>sigint_in_retry_sleep\<close> says that
  it arrives during \<open>time.sleep(60)\<close> inside the handler of \<open>Exception\<close>. A flag
  has no effect when the iteration does not reach that statement.
\<close>

record tick =
  fire_at :: "int option"
  sigint_in_sleep :: bool
  sigint_in_retry_sleep :: bool

text \<open>What can leave a statement: an \<open>Exception\<close> or the interrupt.\<close>

datatype raised = Exception exc | KeyboardInterrupt

text \<open>
  The process is still in the loop, or it has left the loop through \<open>break\<close> and
  ended, or it has died of an exception that nothing caught.
\<close>

datatype status = InLoop | Exited | Uncaught raised

definition run_pending :: "args \<Rightarrow> tick \<Rightarrow> world \<Rightarrow> (exc + unit) \<times> world" where
  "run_pending a t w =
     (case fire_at t of
        None \<Rightarrow> (Inr (), w)
      | Some now \<Rightarrow> main a (w\<lparr>clock := now\<rparr>))"

definition loop_iteration :: "args \<Rightarrow> tick \<Rightarrow> world \<Rightarrow> status \<times> world" where
  "loop_iteration a t w =
     (case run_pending a t w of
        (Inr u, w') \<Rightarrow>
          if sigint_in_sleep t then (Exited, write_log StoppedByUser w')
          else (InLoop, w')
      | (Inl e, w') \<Rightarrow>
          (let w'' = write_log (UnexpectedError e) w'
           in if sigint_in_retry_sleep t then (Uncaught KeyboardInterrupt, w'')
              else (InLoop, w'')))"

fun scheduler_loop :: "args \<Rightarrow> tick list \<Rightarrow> world \<Rightarrow> status \<times> world" where
  "scheduler_loop a [] w = (InLoop, w)"
| "scheduler_loop a (t # ts) w =
     (case loop_iteration a t w of
        (InLoop, w') \<Rightarrow> scheduler_loop a ts w'
      | (Exited, w') \<Rightarrow> (Exited, w')
      | (Uncaught x, w') \<Rightarrow> (Uncaught x, w'))"

text \<open>The script from its first line: load the configuration, then loop.\<close>

definition script :: "args \<Rightarrow> tick list \<Rightarrow> world \<Rightarrow> status \<times> world" where
  "script a ts w =
     (let w0 = record_call LoadConfig w
      in (case load_config (read_json w (JStr (arg_config_path a))) of
            Inl e \<Rightarrow> (Uncaught (Exception e), w0)
          | Inr cfg \<Rightarrow> scheduler_loop a ts w0))"

section \<open>Example inputs\<close>

definition run_broken :: run where
  "run_broken = \<lparr>run_id = ''b2'', state = ''running'', user_name = ''kim'',
     config = Inr [''loss'' \<mapsto> VObj (Inl RuntimeError)],
     summary = Inl CommError\<rparr>"

definition run_a :: run where
  "run_a = \<lparr>run_id = ''a1'', state = ''running'', user_name = ''kim'',
     config = Inr [''accuracy'' \<mapsto> VFloat 91 (- 2)],
     summary = Inr [''_timestamp'' \<mapsto> VInt 1700000000]\<rparr>"

definition run_done :: run where
  "run_done = \<lparr>run_id = ''c3'', state = ''finished'', user_name = ''kim'',
     config = Inr Map.empty, summary = Inr Map.empty\<rparr>"

definition example_headers :: json where
  "example_headers = JArr [JStr ''id'', JStr ''ts'', JStr ''user'', JStr ''accuracy'']"

definition example_config :: json where
  "example_config =
     JObj [(''GCP_JSON'', JStr ''key.json''), (''FIXED_HEADERS'', example_headers),
           (''TEAM_NAME'', JStr ''lab''), (''PROJECT_NAME'', JStr ''demo'')]"

definition config_without_team :: json where
  "config_without_team =
     JObj [(''GCP_JSON'', JStr ''key.json''), (''FIXED_HEADERS'', example_headers),
           (''PROJECT_NAME'', JStr ''demo'')]"

definition example_args :: args where
  "example_args =
     \<lparr>arg_schedule_time = 30, arg_user_name = ''kim'', arg_sheet_name = ''Runs'',
      arg_config_path = ''CONFIG.json''\<rparr>"

definition example_files :: "json \<Rightarrow> file_result" where
  "example_files p =
     (if p = JStr ''CONFIG.json'' then Parsed example_config
      else if p = JStr ''key.json'' then Parsed (JObj [(''type'', JStr ''service_account'')])
      else NoSuchFile)"

definition sheet_with_header :: worksheet where
  "sheet_with_header =
     \<lparr>title = ''Sheet1'', row_count = 1000, col_count = 26,
      cells = [[''id'', ''ts'', ''user'', ''accuracy'']]\<rparr>"

definition blank_sheet :: worksheet where
  "blank_sheet = \<lparr>title = ''Sheet1'', row_count = 1000, col_count = 26, cells = []\<rparr>"

text \<open>
  A world in which everything works: the spreadsheet \<open>Runs\<close> has one worksheet, with
  a header row; the tracking service reports one running run of the user and one
  finished run.
\<close>

definition example_world :: world where
  "example_world =
     \<lparr>read_json = example_files, auth_error = None, open_error = None,
      docs = [''Runs'' \<mapsto> [sheet_with_header]], api_error = None,
      fetch_runs = (\<lambda>team project. Inr [run_a, run_done]), append_error = None,
      clock = 1700000000, utc_offset = 0, calls = [], log = []\<rparr>"

text \<open>The same world with a blank worksheet and no run that qualifies.\<close>

definition quiet_world :: world where
  "quiet_world =
     example_world\<lparr>docs := [''Runs'' \<mapsto> [blank_sheet]],
       fetch_runs := (\<lambda>team project. Inr [run_done])\<rparr>"

text \<open>The same world without the spreadsheet: every cycle fails.\<close>

definition world_without_spreadsheet :: world where
  "world_without_spreadsheet = example_world\<lparr>docs := Map.empty\<rparr>"

definition runs_sheet :: "nat \<Rightarrow> worksheet" where
  "runs_sheet i =
     \<lparr>title = ''runs_'' @ dec_digits i, row_count = 1000, col_count = 26, cells = []\<rparr>"

text \<open>A spreadsheet at the limit: \<open>Sheet1\<close>, \<open>Archive\<close> and 98 rotated worksheets.\<close>

definition full_spreadsheet :: "worksheet list" where
  "full_spreadsheet =
     sheet_with_header
       # \<lparr>title = ''Archive'', row_count = 200, col_count = 10, cells = [[''old'']]\<rparr>
       # map runs_sheet [0..<98]"

text \<open>A spreadsheet at the limit in which every worksheet is a rotated one.\<close>

definition only_runs_spreadsheet :: "worksheet list" where
  "only_runs_spreadsheet = map runs_sheet [0..<100]"

definition world_of_rotated_sheets :: world where
  "world_of_rotated_sheets = example_world\<lparr>docs := [''Runs'' \<mapsto> only_runs_spreadsheet]\<rparr>"

definition fire :: "int \<Rightarrow> tick" where
  "fire t = \<lparr>fire_at = Some t, sigint_in_sleep = False, sigint_in_retry_sleep = False\<rparr>"

definition idle :: tick where
  "idle = \<lparr>fire_at = None, sigint_in_sleep = False, sigint_in_retry_sleep = False\<rparr>"

section \<open>Properties of the row builder\<close>

lemma get_timestamp_Inr: "\<exists>s. get_timestamp utcoff r = Inr s"
  by (simp add: get_timestamp_def split: sum.split)

lemma get_run_value_Inr: "\<exists>s. get_run_value r key = Inr s"
  by (simp add: get_run_value_def split: sum.split)

lemma append_values_Inr:
  "\<exists>vals. append_values r keys row_data = Inr (row_data @ vals) \<and> length vals = length keys
     \<and> (\<forall>i<length keys. get_run_value r (keys ! i) = Inr (vals ! i))"
proof (induction keys arbitrary: row_data)
  case Nil
  show ?case by simp
next
  case (Cons key keys)
  obtain v where v: "get_run_value r key = Inr v"
    using get_run_value_Inr by blast
  obtain vals where vals: "append_values r keys (row_data @ [v]) = Inr ((row_data @ [v]) @ vals)"
      "length vals = length keys" "\<forall>i<length keys. get_run_value r (keys ! i) = Inr (vals ! i)"
    using Cons.IH by blast
  have "append_values r (key # keys) row_data = Inr (row_data @ (v # vals))"
    using v vals(1) by simp
  moreover have "length (v # vals) = length (key # keys)"
    using vals(2) by simp
  moreover have "\<forall>i<length (key # keys). get_run_value r ((key # keys) ! i) = Inr ((v # vals) ! i)"
    using v vals(3) by (auto simp: nth_Cons split: nat.split)
  ultimately show ?case by blast
qed

lemma build_row_Inr:
  assumes "header_tail hdr = Inr keys"
  shows "\<exists>ts vals. get_timestamp utcoff r = Inr ts
     \<and> build_row utcoff r hdr = Inr ([run_id r, ts, user_name r] @ vals)
     \<and> length vals = length keys
     \<and> (\<forall>i<length keys. get_run_value r (keys ! i) = Inr (vals ! i))"
proof -
  obtain ts where ts: "get_timestamp utcoff r = Inr ts"
    using get_timestamp_Inr by blast
  obtain vals where "append_values r keys [run_id r, ts, user_name r] = Inr ([run_id r, ts, user_name r] @ vals)"
      "length vals = length keys" "\<forall>i<length keys. get_run_value r (keys ! i) = Inr (vals ! i)"
    using append_values_Inr by blast
  then show ?thesis using ts assms by (simp add: build_row_def)
qed

lemma process_runs_loop_filter:
  assumes "header_tail hdr = Inr keys"
  shows "process_runs_loop utcoff R S hdr U acc =
     acc @ map (\<lambda>r. projr (build_row utcoff r hdr))
        (filter (\<lambda>r. state r = ''running'' \<and> run_id r \<notin> set S \<and> user_name r = U) R)"
proof (induction R arbitrary: acc)
  case Nil
  show ?case by simp
next
  case (Cons r R)
  obtain row where row: "build_row utcoff r hdr = Inr row"
    using build_row_Inr [OF assms] by blast
  show ?case using row Cons.IH by simp
qed

lemma process_runs_filter:
  assumes "header_tail hdr = Inr keys"
  shows "process_runs utcoff R S hdr U =
     map (\<lambda>r. projr (build_row utcoff r hdr))
        (filter (\<lambda>r. state r = ''running'' \<and> run_id r \<notin> set S \<and> user_name r = U) R)"
  using process_runs_loop_filter [OF assms] by (simp add: process_runs_def)

text \<open>
  C10. \<open>get_timestamp\<close> and \<open>get_run_value\<close> always return a string, for every run and
  every key, and never an exception; whenever the body of their \<open>try\<close> raises (the
  summary or the configuration of the run cannot be read, the key cannot be
  looked up, the timestamp cannot be converted, \<open>str\<close> of the value raises), the
  string returned is the empty one.
\<close>

theorem get_timestamp_get_run_value_total:
  "(\<exists>s. get_timestamp utcoff r = Inr s) \<and> (\<exists>s. get_run_value r key = Inr s)
   \<and> (\<forall>e. get_timestamp_try utcoff r = Inl e \<longrightarrow> get_timestamp utcoff r = Inr '''')
   \<and> (\<forall>e. get_run_value_try r key = Inl e \<longrightarrow> get_run_value r key = Inr '''')"
  by (simp add: get_timestamp_def get_run_value_def split: sum.split)

theorem get_timestamp_get_run_value_total_witness:
  "get_timestamp_try 0 run_broken = Inl CommError
   \<and> get_run_value_try run_broken (JStr ''loss'') = Inl RuntimeError
   \<and> get_timestamp 0 run_broken = Inr ''''
   \<and> get_run_value run_broken (JStr ''loss'') = Inr ''''"
proof -
  have a: "get_timestamp_try 0 run_broken = Inl CommError"
    by code_simp
  have b: "get_run_value_try run_broken (JStr ''loss'') = Inl RuntimeError"
    by code_simp
  show ?thesis
    using a b get_timestamp_get_run_value_total [of 0 run_broken "JStr ''loss''"] by simp
qed

text \<open>
  C1. For every list of runs \<open>R\<close>, list of synced identifiers \<open>S\<close>, list of headers and
  user name \<open>U\<close>, the rows returned by \<open>process_runs\<close> are the rows built for the runs
  of \<open>R\<close> whose state is \<open>running\<close>, whose identifier is not in \<open>S\<close> and whose user name
  is \<open>U\<close>: one row for each such run, none for any other, in the order of \<open>R\<close>. A
  permutation of \<open>R\<close> gives the same rows up to their order.
\<close>

theorem process_runs_selects_qualifying:
  "map Inr (process_runs utcoff R S (JArr hs) U) =
     map (\<lambda>r. build_row utcoff r (JArr hs))
       (filter (\<lambda>r. state r = ''running'' \<and> run_id r \<notin> set S \<and> user_name r = U) R)
   \<and> (\<forall>R'. mset R' = mset R \<longrightarrow>
         mset (process_runs utcoff R' S (JArr hs) U) = mset (process_runs utcoff R S (JArr hs) U))"
proof
  have ht: "header_tail (JArr hs) = Inr (drop 3 hs)" by simp
  have ok: "Inr (projr (build_row utcoff r (JArr hs))) = build_row utcoff r (JArr hs)" for r
    using build_row_Inr [OF ht, of utcoff r] by auto
  show "map Inr (process_runs utcoff R S (JArr hs) U) =
     map (\<lambda>r. build_row utcoff r (JArr hs))
       (filter (\<lambda>r. state r = ''running'' \<and> run_id r \<notin> set S \<and> user_name r = U) R)"
    by (simp add: process_runs_filter [OF ht] ok)
  show "\<forall>R'. mset R' = mset R \<longrightarrow>
         mset (process_runs utcoff R' S (JArr hs) U) = mset (process_runs utcoff R S (JArr hs) U)"
  proof (intro allI impI)
    fix R' :: "run list"
    assume p: "mset R' = mset R"
    have "mset (filter (\<lambda>r. state r = ''running'' \<and> run_id r \<notin> set S \<and> user_name r = U) R')
        = mset (filter (\<lambda>r. state r = ''running'' \<and> run_id r \<notin> set S \<and> user_name r = U) R)"
      using p by (simp only: mset_filter)
    then show "mset (process_runs utcoff R' S (JArr hs) U) = mset (process_runs utcoff R S (JArr hs) U)"
      by (simp only: process_runs_filter [OF ht] mset_map)
  qed
qed

theorem process_runs_selects_qualifying_witness:
  "mset [run_done, run_a] = mset [run_a, run_done]
   \<and> mset (process_runs 0 [run_done, run_a] [''b2''] (JArr [JStr ''id'', JStr ''ts'', JStr ''user'', JStr ''accuracy'']) ''kim'')
     = mset (process_runs 0 [run_a, run_done] [''b2''] (JArr [JStr ''id'', JStr ''ts'', JStr ''user'', JStr ''accuracy'']) ''kim'')
   \<and> process_runs 0 [run_a, run_done] [''b2''] (JArr [JStr ''id'', JStr ''ts'', JStr ''user'', JStr ''accuracy'']) ''kim''
     = [[''a1'', ''2023-11-14 22:13:20'', ''kim'', ''0.91'']]"
proof -
  have p: "mset [run_done, run_a] = mset [run_a, run_done]"
    by simp
  have v: "process_runs 0 [run_a, run_done] [''b2''] (JArr [JStr ''id'', JStr ''ts'', JStr ''user'', JStr ''accuracy'']) ''kim''
     = [[''a1'', ''2023-11-14 22:13:20'', ''kim'', ''0.91'']]"
    by code_simp
  from process_runs_selects_qualifying [of 0 "[run_a, run_done]" "[''b2'']"
      "[JStr ''id'', JStr ''ts'', JStr ''user'', JStr ''accuracy'']" "''kim''"]
  have "mset (process_runs 0 [run_done, run_a] [''b2''] (JArr [JStr ''id'', JStr ''ts'', JStr ''user'', JStr ''accuracy'']) ''kim'')
     = mset (process_runs 0 [run_a, run_done] [''b2''] (JArr [JStr ''id'', JStr ''ts'', JStr ''user'', JStr ''accuracy'']) ''kim'')"
    using p by blast
  then show ?thesis using p v by blast
qed

lemma get_run_value_mapping:
  assumes "config r = Inr c" "summary r = Inr s"
  shows "get_run_value r (JStr k) =
     (case c k of
        Some v \<Rightarrow> (case py_str v of Inl e \<Rightarrow> Inr '''' | Inr t \<Rightarrow> Inr t)
      | None \<Rightarrow>
          (case s k of
             Some v \<Rightarrow> (case py_str v of Inl e \<Rightarrow> Inr '''' | Inr t \<Rightarrow> Inr t)
           | None \<Rightarrow> Inr ''''))"
  using assms
  by (simp add: get_run_value_def get_run_value_try_def split: option.split sum.split)

lemma build_row_cells:
  assumes b: "build_row utcoff r (JArr (map JStr H)) = Inr row"
  shows "length row = max 3 (length H)
         \<and> row ! 0 = run_id r
         \<and> Inr (row ! 1) = get_timestamp utcoff r
         \<and> row ! 2 = user_name r
         \<and> (\<forall>i. 3 \<le> i \<and> i < length H \<longrightarrow> Inr (row ! i) = get_run_value r (JStr (H ! i)))"
proof -
  have ht: "header_tail (JArr (map JStr H)) = Inr (drop 3 (map JStr H))" by simp
  obtain ts vals where ts: "get_timestamp utcoff r = Inr ts"
    and row: "build_row utcoff r (JArr (map JStr H)) = Inr ([run_id r, ts, user_name r] @ vals)"
    and len: "length vals = length (drop 3 (map JStr H))"
    and vals: "\<forall>i<length (drop 3 (map JStr H)).
                 get_run_value r (drop 3 (map JStr H) ! i) = Inr (vals ! i)"
    using build_row_Inr [OF ht, of utcoff r] by blast
  have eq: "row = [run_id r, ts, user_name r] @ vals"
    using b row by simp
  have c0: "length row = max 3 (length H)"
    using len by (simp add: eq)
  have c1: "row ! 0 = run_id r"
    by (simp add: eq)
  have c2: "Inr (row ! 1) = get_timestamp utcoff r"
    by (simp add: eq ts)
  have c3: "row ! 2 = user_name r"
    by (simp add: eq)
  have c4: "Inr (row ! i) = get_run_value r (JStr (H ! i))" if "3 \<le> i \<and> i < length H" for i
  proof -
    have j: "i - 3 < length (drop 3 (map JStr H))" using that by auto
    have "get_run_value r (drop 3 (map JStr H) ! (i - 3)) = Inr (vals ! (i - 3))"
      using vals j by blast
    moreover have "drop 3 (map JStr H) ! (i - 3) = JStr (H ! i)"
      using that by auto
    moreover have "row ! i = vals ! (i - 3)"
      using that by (auto simp: eq nth_append numeral_3_eq_3)
    ultimately show ?thesis by simp
  qed
  show ?thesis using c0 c1 c2 c3 c4 by blast
qed

text \<open>
  C2, as the code has it. The row built for a run is never shorter than three
  cells: with the header list \<open>["id"]\<close> the row of the example run has three cells
  for one header.
\<close>

theorem build_row_counterexample:
  "process_runs 0 [run_a] [] (JArr [JStr ''id'']) ''kim'' = [[''a1'', ''2023-11-14 22:13:20'', ''kim'']]
   \<and> length [''a1'', ''2023-11-14 22:13:20'', ''kim''] \<noteq> length [JStr ''id'']"
proof
  show "process_runs 0 [run_a] [] (JArr [JStr ''id'']) ''kim'' = [[''a1'', ''2023-11-14 22:13:20'', ''kim'']]"
    by code_simp
  show "length [''a1'', ''2023-11-14 22:13:20'', ''kim''] \<noteq> length [JStr ''id'']"
    by simp
qed

text \<open>
  C2, amended. For every run and every header list \<open>H\<close> a row is built; its length
  is the larger of 3 and the length of \<open>H\<close> (the length of \<open>H\<close> as soon as \<open>H\<close> has three
  headers); cells 0 to 2 are the run identifier, what \<open>get_timestamp\<close> returns (the
  formatted timestamp or the empty string) and the user name; the cell of every
  header beyond the first three is what \<open>get_run_value\<close> returns for it. When the
  configuration and the summary of the run can be read, that is \<open>str\<close> of the
  configuration value if the key is in the configuration, otherwise \<open>str\<close> of the
  summary value if the key is in the summary, otherwise the empty string, and the
  empty string where \<open>str\<close> raises.
\<close>

theorem build_row_shape:
  "(\<exists>row. build_row utcoff r (JArr (map JStr H)) = Inr row)
   \<and> (\<forall>row. build_row utcoff r (JArr (map JStr H)) = Inr row \<longrightarrow>
         length row = max 3 (length H)
         \<and> row ! 0 = run_id r
         \<and> Inr (row ! 1) = get_timestamp utcoff r
         \<and> row ! 2 = user_name r
         \<and> (\<forall>i. 3 \<le> i \<and> i < length H \<longrightarrow> Inr (row ! i) = get_run_value r (JStr (H ! i))))
   \<and> (\<forall>c s k. config r = Inr c \<and> summary r = Inr s \<longrightarrow>
         get_run_value r (JStr k) =
           (case c k of
              Some v \<Rightarrow> (case py_str v of Inl e \<Rightarrow> Inr '''' | Inr t \<Rightarrow> Inr t)
            | None \<Rightarrow>
                (case s k of
                   Some v \<Rightarrow> (case py_str v of Inl e \<Rightarrow> Inr '''' | Inr t \<Rightarrow> Inr t)
                 | None \<Rightarrow> Inr '''')))"
proof -
  have ht: "header_tail (JArr (map JStr H)) = Inr (drop 3 (map JStr H))" by simp
  have ex: "\<exists>row. build_row utcoff r (JArr (map JStr H)) = Inr row"
    using build_row_Inr [OF ht, of utcoff r] by blast
  have shape: "\<forall>row. build_row utcoff r (JArr (map JStr H)) = Inr row \<longrightarrow>
         length row = max 3 (length H)
         \<and> row ! 0 = run_id r
         \<and> Inr (row ! 1) = get_timestamp utcoff r
         \<and> row ! 2 = user_name r
         \<and> (\<forall>i. 3 \<le> i \<and> i < length H \<longrightarrow> Inr (row ! i) = get_run_value r (JStr (H ! i)))"
  proof (intro allI impI)
    fix row
    assume "build_row utcoff r (JArr (map JStr H)) = Inr row"
    then show "length row = max 3 (length H)
         \<and> row ! 0 = run_id r
         \<and> Inr (row ! 1) = get_timestamp utcoff r
         \<and> row ! 2 = user_name r
         \<and> (\<forall>i. 3 \<le> i \<and> i < length H \<longrightarrow> Inr (row ! i) = get_run_value r (JStr (H ! i)))"
      by (rule build_row_cells)
  qed
  have cell: "\<forall>c s k. config r = Inr c \<and> summary r = Inr s \<longrightarrow>
         get_run_value r (JStr k) =
           (case c k of
              Some v \<Rightarrow> (case py_str v of Inl e \<Rightarrow> Inr '''' | Inr t \<Rightarrow> Inr t)
            | None \<Rightarrow>
                (case s k of
                   Some v \<Rightarrow> (case py_str v of Inl e \<Rightarrow> Inr '''' | Inr t \<Rightarrow> Inr t)
                 | None \<Rightarrow> Inr ''''))"
  proof (intro allI impI)
    fix c s k
    assume a: "config r = Inr c \<and> summary r = Inr s"
    show "get_run_value r (JStr k) =
           (case c k of
              Some v \<Rightarrow> (case py_str v of Inl e \<Rightarrow> Inr '''' | Inr t \<Rightarrow> Inr t)
            | None \<Rightarrow>
                (case s k of
                   Some v \<Rightarrow> (case py_str v of Inl e \<Rightarrow> Inr '''' | Inr t \<Rightarrow> Inr t)
                 | None \<Rightarrow> Inr ''''))"
      by (rule get_run_value_mapping [OF a [THEN conjunct1] a [THEN conjunct2]])
  qed
  show ?thesis
    by (intro conjI ex shape cell)
qed

theorem build_row_shape_witness:
  "build_row 0 run_a (JArr (map JStr [''id'', ''ts'', ''user'', ''accuracy''])) =
      Inr [''a1'', ''2023-11-14 22:13:20'', ''kim'', ''0.91'']
   \<and> (3::nat) \<le> 3 \<and> (3::nat) < length [''id'', ''ts'', ''user'', ''accuracy'']
   \<and> length [''a1'', ''2023-11-14 22:13:20'', ''kim'', ''0.91'']
       = max 3 (length [''id'', ''ts'', ''user'', ''accuracy''])
   \<and> Inr ([''a1'', ''2023-11-14 22:13:20'', ''kim'', ''0.91''] ! 3)
       = get_run_value run_a (JStr ([''id'', ''ts'', ''user'', ''accuracy''] ! 3))"
proof -
  have b: "build_row 0 run_a (JArr (map JStr [''id'', ''ts'', ''user'', ''accuracy''])) =
      Inr [''a1'', ''2023-11-14 22:13:20'', ''kim'', ''0.91'']"
    by code_simp
  have i: "(3::nat) \<le> 3 \<and> (3::nat) < length [''id'', ''ts'', ''user'', ''accuracy'']"
    by simp
  note s = build_row_shape [of 0 run_a "[''id'', ''ts'', ''user'', ''accuracy'']",
      THEN conjunct2, THEN conjunct1, THEN spec, THEN mp, OF b]
  note l = s [THEN conjunct1]
  note c = s [THEN conjunct2, THEN conjunct2, THEN conjunct2, THEN conjunct2, THEN spec, THEN mp, OF i]
  show ?thesis
    by (intro conjI b l c i [THEN conjunct1] i [THEN conjunct2])
qed

lemma str_float_091: "str_float 91 (- 2) = ''0.91''"
  by code_simp

lemma civil_19674: "civil_from_days 19674 = (2023, 11, 13)"
  by code_simp

lemma civil_19675: "civil_from_days 19675 = (2023, 11, 14)"
  by code_simp

lemma civil_19676: "civil_from_days 19676 = (2023, 11, 15)"
  by code_simp

lemma year_near_example:
  assumes "- 86400 < u" "u < 86400"
  shows "year (datetime_of_seconds (1700000000 + u)) = 2023"
proof -
  have "(1700000000 + u) div 86400 = 19674 \<or> (1700000000 + u) div 86400 = 19675
      \<or> (1700000000 + u) div 86400 = 19676"
    using assms by arith
  then show ?thesis
    by (auto simp: datetime_of_seconds_def Let_def civil_19674 civil_19675 civil_19676)
qed

lemma fromtimestamp_example:
  assumes "- 86400 < u" "u < 86400"
  shows "fromtimestamp u (VInt 1700000000) = Inr (datetime_of_seconds (1700000000 + u))"
  using year_near_example [OF assms] by (simp add: fromtimestamp_def Let_def)

lemma get_timestamp_absent:
  assumes "summary r = Inr s" "s ''_timestamp'' = None"
  shows "get_timestamp utcoff r = Inr ''''"
  using assms by (simp add: get_timestamp_def get_timestamp_try_def)

lemma example_row:
  assumes "rid \<notin> set S" "- 86400 < u" "u < 86400"
  shows "process_runs u
        [\<lparr>run_id = rid, state = ''running'', user_name = usr,
          config = Inr [''accuracy'' \<mapsto> VFloat 91 (- 2)],
          summary = Inr [''_timestamp'' \<mapsto> VInt 1700000000]\<rparr>]
        S (JArr [JStr ''id'', JStr ''ts'', JStr ''user'', JStr ''accuracy'']) usr
     = [[rid, strftime_row (datetime_of_seconds (1700000000 + u)), usr, ''0.91'']]"
  using assms(1) fromtimestamp_example [OF assms(2,3)]
  by (simp add: process_runs_def build_row_def get_timestamp_def get_timestamp_try_def
      get_run_value_def get_run_value_try_def str_float_091)

lemma example_timestamp_utc:
  "strftime_row (datetime_of_seconds (1700000000 + 0)) = ''2023-11-14 22:13:20''"
  by code_simp

text \<open>
  C9, as the code has it. \<open>datetime.fromtimestamp\<close> gives local time: in a zone nine
  hours east of UTC the row of the example run carries \<open>2023-11-15 07:13:20\<close>, not
  \<open>2023-11-14 22:13:20\<close>.
\<close>

theorem example_row_counterexample:
  "process_runs 32400 [run_a] [] (JArr [JStr ''id'', JStr ''ts'', JStr ''user'', JStr ''accuracy''])
      ''kim'' = [[''a1'', ''2023-11-15 07:13:20'', ''kim'', ''0.91'']]
   \<and> [[''a1'', ''2023-11-15 07:13:20'', ''kim'', ''0.91'']]
       \<noteq> [[''a1'', ''2023-11-14 22:13:20'', ''kim'', ''0.91'']]"
proof
  show "process_runs 32400 [run_a] [] (JArr [JStr ''id'', JStr ''ts'', JStr ''user'', JStr ''accuracy''])
      ''kim'' = [[''a1'', ''2023-11-15 07:13:20'', ''kim'', ''0.91'']]"
    by code_simp
  show "[[''a1'', ''2023-11-15 07:13:20'', ''kim'', ''0.91'']]
       \<noteq> [[''a1'', ''2023-11-14 22:13:20'', ''kim'', ''0.91'']]"
    by simp
qed

text \<open>
  C9, amended. Given the headers \<open>["id","ts","user","accuracy"]\<close> and a qualifying run
  with configuration \<open>{"accuracy": 0.91}\<close> and summary \<open>{"_timestamp": 1700000000}\<close>,
  the built row is \<open>[id, T, user, "0.91"]\<close>, where \<open>T\<close> is the epoch rendered in the local
  time zone of the process (offset \<open>u\<close>, less than a day): it is determined by the
  epoch and that offset, and it is \<open>2023-11-14 22:13:20\<close> when the local zone is
  UTC. The timestamp is the empty string when \<open>_timestamp\<close> is absent from the
  summary.
\<close>

theorem example_row_local_time:
  "(rid \<notin> set S \<and> - 86400 < u \<and> u < 86400 \<longrightarrow>
      process_runs u
        [\<lparr>run_id = rid, state = ''running'', user_name = usr,
          config = Inr [''accuracy'' \<mapsto> VFloat 91 (- 2)],
          summary = Inr [''_timestamp'' \<mapsto> VInt 1700000000]\<rparr>]
        S (JArr [JStr ''id'', JStr ''ts'', JStr ''user'', JStr ''accuracy'']) usr
      = [[rid, strftime_row (datetime_of_seconds (1700000000 + u)), usr, ''0.91'']])
   \<and> strftime_row (datetime_of_seconds (1700000000 + 0)) = ''2023-11-14 22:13:20''
   \<and> (\<forall>s. summary r = Inr s \<and> s ''_timestamp'' = None \<longrightarrow> get_timestamp v r = Inr '''')"
proof (intro conjI)
  show "rid \<notin> set S \<and> - 86400 < u \<and> u < 86400 \<longrightarrow>
      process_runs u
        [\<lparr>run_id = rid, state = ''running'', user_name = usr,
          config = Inr [''accuracy'' \<mapsto> VFloat 91 (- 2)],
          summary = Inr [''_timestamp'' \<mapsto> VInt 1700000000]\<rparr>]
        S (JArr [JStr ''id'', JStr ''ts'', JStr ''user'', JStr ''accuracy'']) usr
      = [[rid, strftime_row (datetime_of_seconds (1700000000 + u)), usr, ''0.91'']]"
  proof
    assume a: "rid \<notin> set S \<and> - 86400 < u \<and> u < 86400"
    show "process_runs u
        [\<lparr>run_id = rid, state = ''running'', user_name = usr,
          config = Inr [''accuracy'' \<mapsto> VFloat 91 (- 2)],
          summary = Inr [''_timestamp'' \<mapsto> VInt 1700000000]\<rparr>]
        S (JArr [JStr ''id'', JStr ''ts'', JStr ''user'', JStr ''accuracy'']) usr
      = [[rid, strftime_row (datetime_of_seconds (1700000000 + u)), usr, ''0.91'']]"
      by (rule example_row [OF a [THEN conjunct1] a [THEN conjunct2, THEN conjunct1]
            a [THEN conjunct2, THEN conjunct2]])
  qed
  show "strftime_row (datetime_of_seconds (1700000000 + 0)) = ''2023-11-14 22:13:20''"
    by (rule example_timestamp_utc)
  show "\<forall>s. summary r = Inr s \<and> s ''_timestamp'' = None \<longrightarrow> get_timestamp v r = Inr ''''"
  proof (intro allI impI)
    fix s
    assume a: "summary r = Inr s \<and> s ''_timestamp'' = None"
    show "get_timestamp v r = Inr ''''"
      by (rule get_timestamp_absent [OF a [THEN conjunct1] a [THEN conjunct2]])
  qed
qed

theorem example_row_local_time_witness:
  "''a1'' \<notin> set [''b2''] \<and> - 86400 < (0::int) \<and> (0::int) < 86400
   \<and> process_runs 0
        [\<lparr>run_id = ''a1'', state = ''running'', user_name = ''kim'',
          config = Inr [''accuracy'' \<mapsto> VFloat 91 (- 2)],
          summary = Inr [''_timestamp'' \<mapsto> VInt 1700000000]\<rparr>]
        [''b2''] (JArr [JStr ''id'', JStr ''ts'', JStr ''user'', JStr ''accuracy'']) ''kim''
      = [[''a1'', ''2023-11-14 22:13:20'', ''kim'', ''0.91'']]
   \<and> summary run_done = Inr Map.empty \<and> Map.empty ''_timestamp'' = (None :: pyval option)
   \<and> get_timestamp 0 run_done = Inr ''''"
proof -
  have h: "''a1'' \<notin> set [''b2''] \<and> - 86400 < (0::int) \<and> (0::int) < 86400"
    by simp
  have g: "summary run_done = Inr Map.empty \<and> Map.empty ''_timestamp'' = (None :: pyval option)"
    by (simp add: run_done_def)
  note t = example_row_local_time [of "''a1''" "[''b2'']" 0 "''kim''" run_done 0]
  note row = t [THEN conjunct1, THEN mp, OF h]
  note utc = t [THEN conjunct2, THEN conjunct1]
  note absent = t [THEN conjunct2, THEN conjunct2, THEN spec, THEN mp, OF g]
  have "process_runs 0
        [\<lparr>run_id = ''a1'', state = ''running'', user_name = ''kim'',
          config = Inr [''accuracy'' \<mapsto> VFloat 91 (- 2)],
          summary = Inr [''_timestamp'' \<mapsto> VInt 1700000000]\<rparr>]
        [''b2''] (JArr [JStr ''id'', JStr ''ts'', JStr ''user'', JStr ''accuracy'']) ''kim''
      = [[''a1'', ''2023-11-14 22:13:20'', ''kim'', ''0.91'']]"
    using row by (simp only: utc)
  then show ?thesis
    using h g absent by blast
qed

section \<open>Properties of the configuration loader\<close>

lemma load_config_no_file:
  "load_config NoSuchFile = Inl (ConfigError ConfigFileNotFound)"
  "load_config NotJSON = Inl (ConfigError InvalidConfigJSON)"
  by (simp_all add: load_config_def)

lemma load_config_missing_required:
  assumes "map_of kvs ''GCP_JSON'' = None \<or> map_of kvs ''FIXED_HEADERS'' = None"
  shows "\<exists>ms. load_config (Parsed (JObj kvs)) = Inl (ConfigError (MissingKeys ms))"
  using assms by (auto simp: load_config_def required_keys_def)

lemma load_config_Inr:
  assumes "load_config f = Inr cfg"
  shows "\<exists>kvs. f = Parsed cfg \<and> cfg = JObj kvs
           \<and> map_of kvs ''GCP_JSON'' \<noteq> None \<and> map_of kvs ''FIXED_HEADERS'' \<noteq> None
           \<and> map_of kvs ''TEAM_NAME'' \<noteq> None \<and> map_of kvs ''PROJECT_NAME'' \<noteq> None"
proof (cases f)
  case (Parsed c)
  show ?thesis
  proof (cases c)
    case (JObj kvs)
    then show ?thesis
      using assms Parsed
      by (auto simp: load_config_def required_keys_def
          split: sum.split_asm if_split_asm option.split_asm)
  qed (use assms Parsed in \<open>auto simp: load_config_def required_keys_def
          split: sum.split_asm if_split_asm\<close>)
qed (use assms in \<open>auto simp: load_config_def\<close>)

text \<open>
  C3, as the code has it. A configuration with \<open>GCP_JSON\<close>, \<open>FIXED_HEADERS\<close> and
  \<open>PROJECT_NAME\<close> but without \<open>TEAM_NAME\<close> makes \<open>load_config\<close> raise \<open>KeyError\<close>, which is
  not a \<open>ConfigError\<close>: the handler written around the two project keys catches
  \<open>ConfigError\<close>, which indexing never raises.
\<close>

theorem load_config_missing_team_name:
  "load_config (Parsed config_without_team) = Inl (KeyError ''TEAM_NAME'')"
  by code_simp

section \<open>Properties of the sheet initialiser\<close>

lemma min_by_title_in: "min_by_title b ss \<in> set (b # ss)"
proof (induction ss arbitrary: b)
  case Nil
  show ?case by simp
next
  case (Cons s ss)
  have "min_by_title (if title s < title b then s else b) ss
      \<in> set ((if title s < title b then s else b) # ss)"
    by (rule Cons.IH)
  then show ?case by (auto split: if_splits)
qed

lemma min_by_title_le_best: "title (min_by_title b ss) \<le> title b"
proof (induction ss arbitrary: b)
  case Nil
  show ?case by simp
next
  case (Cons s ss)
  have "title (min_by_title (if title s < title b then s else b) ss)
      \<le> title (if title s < title b then s else b)"
    by (rule Cons.IH)
  then show ?case by (auto split: if_splits)
qed

lemma min_by_title_le: "x \<in> set (b # ss) \<Longrightarrow> title (min_by_title b ss) \<le> title x"
proof (induction ss arbitrary: b)
  case Nil
  then show ?case by simp
next
  case (Cons s ss)
  let ?b = "if title s < title b then s else b"
  have best: "title (min_by_title ?b ss) \<le> title ?b"
    by (rule min_by_title_le_best)
  consider "x = b" | "x = s" | "x \<in> set ss"
    using Cons.prems by auto
  then show ?case
  proof cases
    case 1
    have "title ?b \<le> title b" by (simp add: order.strict_implies_order)
    with best have "title (min_by_title ?b ss) \<le> title b" by (rule order_trans)
    then show ?thesis using 1 by simp
  next
    case 2
    have "title ?b \<le> title s" by (simp add: not_less)
    with best have "title (min_by_title ?b ss) \<le> title s" by (rule order_trans)
    then show ?thesis using 2 by simp
  next
    case 3
    then have "x \<in> set (?b # ss)" by simp
    then have "title (min_by_title ?b ss) \<le> title x" by (rule Cons.IH)
    then show ?thesis by simp
  qed
qed

lemma oldest_sheet_Inr:
  assumes "not_runs_sheets wss \<noteq> []"
  shows "\<exists>s. oldest_sheet wss = Inr s \<and> s \<in> set wss \<and> \<not> prefix ''runs_'' (title s)
           \<and> (\<forall>x\<in>set wss. \<not> prefix ''runs_'' (title x) \<longrightarrow> title s \<le> title x)"
proof -
  obtain b ss where c: "not_runs_sheets wss = b # ss"
    using assms by (cases "not_runs_sheets wss") auto
  let ?s = "min_by_title b ss"
  have o: "oldest_sheet wss = Inr ?s"
    by (simp add: oldest_sheet_def c)
  have m: "?s \<in> set (not_runs_sheets wss)"
    using min_by_title_in [of b ss] by (simp add: c)
  then have i: "?s \<in> set wss" and p: "\<not> prefix ''runs_'' (title ?s)"
    by (simp_all add: not_runs_sheets_def)
  have l: "title ?s \<le> title x" if "x \<in> set wss" "\<not> prefix ''runs_'' (title x)" for x
  proof -
    have "x \<in> set (b # ss)"
      using that c [symmetric] by (simp add: not_runs_sheets_def)
    then show ?thesis by (rule min_by_title_le)
  qed
  show ?thesis using o i p l by blast
qed

lemma oldest_sheet_Inl:
  assumes "not_runs_sheets wss = []"
  shows "oldest_sheet wss = Inl ValueError"
  using assms by (simp add: oldest_sheet_def)

lemma init_sheet_Inr:
  assumes "init_sheet name cfg w = (Inr target, w')"
  shows "\<exists>wss wss1 deleted wss2 cs.
           docs w name = Some wss \<and> evict_oldest wss = Inr (wss1, deleted)
           \<and> select_worksheet (clock w) (utc_offset w) wss1 = Inr (wss2, target, cs)
           \<and> docs w' name = Some wss2
           \<and> calls w' = calls w @ (case deleted of None \<Rightarrow> [] | Some t \<Rightarrow> [DeleteWorksheet t]) @ cs"
  using assms
  by (auto simp: init_sheet_def init_sheet_try_def Let_def record_call_def write_log_def
      split: sum.split_asm option.split_asm file_result.split_asm prod.split_asm)

lemma init_sheet_Inl_evict:
  assumes "py_getitem cfg ''GCP_JSON'' = Inr g" "read_json w g = Parsed k"
    and "auth_error w = None" "open_error w = None"
    and "docs w name = Some wss" "evict_oldest wss = Inl e"
  shows "init_sheet name cfg w = (Inl (init_sheet_handler e), w)"
  using assms by (simp add: init_sheet_def init_sheet_try_def)

lemma length_remove1_mem: "s \<in> set wss \<Longrightarrow> length (remove1 s wss) = length wss - 1"
  by (simp add: length_remove1)

text \<open>
  C5, amended. In the check of the worksheet limit in \<open>init_sheet\<close>: with fewer than
  100 worksheets nothing is deleted; with 100 or more worksheets of which at least
  one has a title not prefixed \<open>runs_\<close>, exactly one worksheet is deleted, the one
  with the lexicographically smallest title among those not prefixed \<open>runs_\<close>; with
  100 or more worksheets all prefixed \<open>runs_\<close>, \<open>min\<close> of the empty sequence raises,
  nothing is deleted and \<open>init_sheet\<close>, having opened the spreadsheet, fails with a
  \<open>SheetError\<close>. A successful \<open>init_sheet\<close> makes the one
  delete call of the check and no other.
\<close>

theorem evict_oldest_policy:
  "(length wss < 100 \<longrightarrow> evict_oldest wss = Inr (wss, None))
   \<and> (100 \<le> length wss \<and> not_runs_sheets wss \<noteq> [] \<longrightarrow>
        (\<exists>s. s \<in> set wss \<and> \<not> prefix ''runs_'' (title s)
           \<and> (\<forall>x\<in>set wss. \<not> prefix ''runs_'' (title x) \<longrightarrow> title s \<le> title x)
           \<and> evict_oldest wss = Inr (remove1 s wss, Some (title s))
           \<and> length (remove1 s wss) = length wss - 1))
   \<and> (100 \<le> length wss \<and> not_runs_sheets wss = [] \<longrightarrow> evict_oldest wss = Inl ValueError)
   \<and> (\<forall>target w'. init_sheet name cfg w = (Inr target, w') \<and> docs w name = Some wss \<longrightarrow>
        (\<exists>wss1 deleted cs. evict_oldest wss = Inr (wss1, deleted)
           \<and> calls w' = calls w @ (case deleted of None \<Rightarrow> [] | Some t \<Rightarrow> [DeleteWorksheet t]) @ cs
           \<and> (\<forall>t. DeleteWorksheet t \<notin> set cs)))
   \<and> (\<forall>g k. py_getitem cfg ''GCP_JSON'' = Inr g \<and> read_json w g = Parsed k
         \<and> auth_error w = None \<and> open_error w = None \<and> docs w name = Some wss
         \<and> 100 \<le> length wss \<and> not_runs_sheets wss = [] \<longrightarrow>
        init_sheet name cfg w = (Inl (SheetError FailedToInitialize), w))"
proof (intro conjI)
  show "length wss < 100 \<longrightarrow> evict_oldest wss = Inr (wss, None)"
    by (simp add: evict_oldest_def)
  show "100 \<le> length wss \<and> not_runs_sheets wss \<noteq> [] \<longrightarrow>
        (\<exists>s. s \<in> set wss \<and> \<not> prefix ''runs_'' (title s)
           \<and> (\<forall>x\<in>set wss. \<not> prefix ''runs_'' (title x) \<longrightarrow> title s \<le> title x)
           \<and> evict_oldest wss = Inr (remove1 s wss, Some (title s))
           \<and> length (remove1 s wss) = length wss - 1)"
  proof
    assume a: "100 \<le> length wss \<and> not_runs_sheets wss \<noteq> []"
    obtain s where s: "oldest_sheet wss = Inr s" "s \<in> set wss" "\<not> prefix ''runs_'' (title s)"
        "\<forall>x\<in>set wss. \<not> prefix ''runs_'' (title x) \<longrightarrow> title s \<le> title x"
      using oldest_sheet_Inr [OF a [THEN conjunct2]] by blast
    have e: "evict_oldest wss = Inr (remove1 s wss, Some (title s))"
      using a s(1) by (simp add: evict_oldest_def)
    have l: "length (remove1 s wss) = length wss - 1"
      using s(2) by (rule length_remove1_mem)
    show "\<exists>s. s \<in> set wss \<and> \<not> prefix ''runs_'' (title s)
           \<and> (\<forall>x\<in>set wss. \<not> prefix ''runs_'' (title x) \<longrightarrow> title s \<le> title x)
           \<and> evict_oldest wss = Inr (remove1 s wss, Some (title s))
           \<and> length (remove1 s wss) = length wss - 1"
      using s(2,3,4) e l by blast
  qed
  show "100 \<le> length wss \<and> not_runs_sheets wss = [] \<longrightarrow> evict_oldest wss = Inl ValueError"
    by (simp add: evict_oldest_def oldest_sheet_Inl)
  show "\<forall>target w'. init_sheet name cfg w = (Inr target, w') \<and> docs w name = Some wss \<longrightarrow>
        (\<exists>wss1 deleted cs. evict_oldest wss = Inr (wss1, deleted)
           \<and> calls w' = calls w @ (case deleted of None \<Rightarrow> [] | Some t \<Rightarrow> [DeleteWorksheet t]) @ cs
           \<and> (\<forall>t. DeleteWorksheet t \<notin> set cs))"
  proof (intro allI impI)
    fix target w'
    assume a: "init_sheet name cfg w = (Inr target, w') \<and> docs w name = Some wss"
    obtain wss0 wss1 deleted wss2 cs where i: "docs w name = Some wss0"
        "evict_oldest wss0 = Inr (wss1, deleted)"
        "select_worksheet (clock w) (utc_offset w) wss1 = Inr (wss2, target, cs)"
        "calls w' = calls w @ (case deleted of None \<Rightarrow> [] | Some t \<Rightarrow> [DeleteWorksheet t]) @ cs"
      using init_sheet_Inr [OF a [THEN conjunct1]] by blast
    have w: "wss0 = wss" using i(1) a by simp
    have c: "\<forall>t. DeleteWorksheet t \<notin> set cs"
      using i(3) by (auto simp: select_worksheet_def Let_def split: list.split_asm if_split_asm)
    show "\<exists>wss1 deleted cs. evict_oldest wss = Inr (wss1, deleted)
           \<and> calls w' = calls w @ (case deleted of None \<Rightarrow> [] | Some t \<Rightarrow> [DeleteWorksheet t]) @ cs
           \<and> (\<forall>t. DeleteWorksheet t \<notin> set cs)"
      using i(2,4) c unfolding w by blast
  qed
  show "\<forall>g k. py_getitem cfg ''GCP_JSON'' = Inr g \<and> read_json w g = Parsed k
         \<and> auth_error w = None \<and> open_error w = None \<and> docs w name = Some wss
         \<and> 100 \<le> length wss \<and> not_runs_sheets wss = [] \<longrightarrow>
        init_sheet name cfg w = (Inl (SheetError FailedToInitialize), w)"
  proof (intro allI impI)
    fix g k
    assume h: "py_getitem cfg ''GCP_JSON'' = Inr g \<and> read_json w g = Parsed k
         \<and> auth_error w = None \<and> open_error w = None \<and> docs w name = Some wss
         \<and> 100 \<le> length wss \<and> not_runs_sheets wss = []"
    then have e: "evict_oldest wss = Inl ValueError"
      by (simp add: evict_oldest_def oldest_sheet_Inl)
    have "init_sheet name cfg w = (Inl (init_sheet_handler ValueError), w)"
      by (rule init_sheet_Inl_evict [OF h [THEN conjunct1] h [THEN conjunct2, THEN conjunct1]
            h [THEN conjunct2, THEN conjunct2, THEN conjunct1]
            h [THEN conjunct2, THEN conjunct2, THEN conjunct2, THEN conjunct1]
            h [THEN conjunct2, THEN conjunct2, THEN conjunct2, THEN conjunct2, THEN conjunct1] e])
    then show "init_sheet name cfg w = (Inl (SheetError FailedToInitialize), w)"
      by (simp add: init_sheet_handler_def)
  qed
qed

lemma full_spreadsheet_facts:
  "100 \<le> length full_spreadsheet \<and> not_runs_sheets full_spreadsheet \<noteq> []"
  by code_simp

lemma only_runs_spreadsheet_facts:
  "100 \<le> length only_runs_spreadsheet \<and> not_runs_sheets only_runs_spreadsheet = []"
  by code_simp

lemma evict_full: "evict_oldest full_spreadsheet =
    Inr (sheet_with_header # map runs_sheet [0..<98], Some ''Archive'')"
  by code_simp

text \<open>
  C5, as the code has it. A spreadsheet with 100 worksheets that are all prefixed
  \<open>runs_\<close>: \<open>init_sheet\<close> fails with a \<open>SheetError\<close> and no worksheet is deleted.
\<close>

theorem evict_oldest_counterexample:
  "100 \<le> length only_runs_spreadsheet
   \<and> docs world_of_rotated_sheets ''Runs'' = Some only_runs_spreadsheet
   \<and> fst (init_sheet ''Runs'' example_config world_of_rotated_sheets)
       = Inl (SheetError FailedToInitialize)
   \<and> docs (snd (init_sheet ''Runs'' example_config world_of_rotated_sheets)) ''Runs''
       = Some only_runs_spreadsheet
   \<and> calls (snd (init_sheet ''Runs'' example_config world_of_rotated_sheets)) = []"
proof (intro conjI)
  show "100 \<le> length only_runs_spreadsheet"
    by code_simp
  show "docs world_of_rotated_sheets ''Runs'' = Some only_runs_spreadsheet"
    by code_simp
  show "fst (init_sheet ''Runs'' example_config world_of_rotated_sheets)
       = Inl (SheetError FailedToInitialize)"
    by code_simp
  show "docs (snd (init_sheet ''Runs'' example_config world_of_rotated_sheets)) ''Runs''
       = Some only_runs_spreadsheet"
    by code_simp
  show "calls (snd (init_sheet ''Runs'' example_config world_of_rotated_sheets)) = []"
    by code_simp
qed

lemma one_sheet_facts: "length [sheet_with_header] < 100"
  by simp

lemma init_example_world:
  "init_sheet ''Runs'' example_config example_world
     = (Inr 1, snd (init_sheet ''Runs'' example_config example_world))"
proof -
  have "fst (init_sheet ''Runs'' example_config example_world) = Inr 1"
    by code_simp
  then show ?thesis by (metis prod.collapse)
qed

lemma init_quiet_world:
  "init_sheet ''Runs'' example_config quiet_world
     = (Inr 0, snd (init_sheet ''Runs'' example_config quiet_world))"
proof -
  have "fst (init_sheet ''Runs'' example_config quiet_world) = Inr 0"
    by code_simp
  then show ?thesis by (metis prod.collapse)
qed

lemma docs_example_world: "docs example_world ''Runs'' = Some [sheet_with_header]"
  by code_simp

lemma docs_world_of_rotated_sheets:
  "docs world_of_rotated_sheets ''Runs'' = Some only_runs_spreadsheet"
  by code_simp

lemma world_of_rotated_sheets_ready:
  "py_getitem example_config ''GCP_JSON'' = Inr (JStr ''key.json'')
   \<and> read_json world_of_rotated_sheets (JStr ''key.json'')
       = Parsed (JObj [(''type'', JStr ''service_account'')])
   \<and> auth_error world_of_rotated_sheets = None \<and> open_error world_of_rotated_sheets = None
   \<and> docs world_of_rotated_sheets ''Runs'' = Some only_runs_spreadsheet
   \<and> 100 \<le> length only_runs_spreadsheet \<and> not_runs_sheets only_runs_spreadsheet = []"
  by (intro conjI) code_simp+

theorem evict_oldest_policy_witness:
  "length [sheet_with_header] < 100
   \<and> evict_oldest [sheet_with_header] = Inr ([sheet_with_header], None)
   \<and> 100 \<le> length full_spreadsheet \<and> not_runs_sheets full_spreadsheet \<noteq> []
   \<and> (\<exists>s. s \<in> set full_spreadsheet
         \<and> evict_oldest full_spreadsheet = Inr (remove1 s full_spreadsheet, Some (title s))
         \<and> length (remove1 s full_spreadsheet) = length full_spreadsheet - 1)
   \<and> evict_oldest full_spreadsheet
       = Inr (sheet_with_header # map runs_sheet [0..<98], Some ''Archive'')
   \<and> 100 \<le> length only_runs_spreadsheet \<and> not_runs_sheets only_runs_spreadsheet = []
   \<and> evict_oldest only_runs_spreadsheet = Inl ValueError
   \<and> init_sheet ''Runs'' example_config example_world
        = (Inr 1, snd (init_sheet ''Runs'' example_config example_world))
   \<and> docs example_world ''Runs'' = Some [sheet_with_header]
   \<and> (\<exists>wss1 deleted cs. evict_oldest [sheet_with_header] = Inr (wss1, deleted)
         \<and> calls (snd (init_sheet ''Runs'' example_config example_world))
             = calls example_world
                 @ (case deleted of None \<Rightarrow> [] | Some t \<Rightarrow> [DeleteWorksheet t]) @ cs)
   \<and> docs world_of_rotated_sheets ''Runs'' = Some only_runs_spreadsheet
   \<and> init_sheet ''Runs'' example_config world_of_rotated_sheets
       = (Inl (SheetError FailedToInitialize), world_of_rotated_sheets)"
proof -
  note a = evict_oldest_policy [of "[sheet_with_header]" "''Runs''" example_config example_world]
  note b = evict_oldest_policy [of full_spreadsheet "''Runs''" example_config example_world]
  note c = evict_oldest_policy [of only_runs_spreadsheet "''Runs''" example_config
      world_of_rotated_sheets]
  have a1: "evict_oldest [sheet_with_header] = Inr ([sheet_with_header], None)"
    using a [THEN conjunct1] one_sheet_facts by (rule mp)
  have b2: "\<exists>s. s \<in> set full_spreadsheet
         \<and> evict_oldest full_spreadsheet = Inr (remove1 s full_spreadsheet, Some (title s))
         \<and> length (remove1 s full_spreadsheet) = length full_spreadsheet - 1"
    using b [THEN conjunct2, THEN conjunct1, THEN mp, OF full_spreadsheet_facts] by blast
  have c3: "evict_oldest only_runs_spreadsheet = Inl ValueError"
    using c [THEN conjunct2, THEN conjunct2, THEN conjunct1] only_runs_spreadsheet_facts
    by (rule mp)
  have a4: "\<exists>wss1 deleted cs. evict_oldest [sheet_with_header] = Inr (wss1, deleted)
         \<and> calls (snd (init_sheet ''Runs'' example_config example_world))
             = calls example_world
                 @ (case deleted of None \<Rightarrow> [] | Some t \<Rightarrow> [DeleteWorksheet t]) @ cs"
    using a [THEN conjunct2, THEN conjunct2, THEN conjunct2, THEN conjunct1, THEN spec,
        THEN spec, THEN mp, OF conjI, OF init_example_world docs_example_world]
    by blast
  have c5: "init_sheet ''Runs'' example_config world_of_rotated_sheets
       = (Inl (SheetError FailedToInitialize), world_of_rotated_sheets)"
    using c [THEN conjunct2, THEN conjunct2, THEN conjunct2, THEN conjunct2, THEN spec,
        THEN spec, THEN mp, OF world_of_rotated_sheets_ready] .
  show ?thesis
    using one_sheet_facts a1 full_spreadsheet_facts b2 evict_full only_runs_spreadsheet_facts c3
      init_example_world docs_example_world a4 docs_world_of_rotated_sheets c5
    by (intro conjI) (erule conjunct1 conjunct2 | assumption)+
qed

text \<open>
  C7. When \<open>init_sheet\<close> returns, with \<open>sheet1\<close> the first worksheet after the check of
  the worksheet limit: if \<open>sheet1\<close> has any row, the spreadsheet has one more
  worksheet, at the end, titled \<open>runs_\<close> followed by the local time as
  \<open>%Y%m%d_%H%M%S\<close>, with \<open>min(1000, sheet1.row_count)\<close> rows and
  \<open>min(50, sheet1.col_count)\<close> columns, holding the first row of \<open>sheet1\<close> if that row
  is not empty and nothing otherwise, and this new worksheet is the one returned;
  if \<open>sheet1\<close> has no row, no worksheet is added and \<open>sheet1\<close> is the one returned.
\<close>

theorem init_sheet_target:
  "init_sheet name cfg w = (Inr target, w') \<longrightarrow>
     (\<exists>wss wss1 deleted sheet1 rest.
        docs w name = Some wss \<and> evict_oldest wss = Inr (wss1, deleted) \<and> wss1 = sheet1 # rest
        \<and> (if cells sheet1 \<noteq> [] then
              docs w' name = Some (wss1 @
                [\<lparr>title = ''runs_'' @ strftime_title (datetime_of_seconds (clock w + utc_offset w)),
                  row_count = min 1000 (row_count sheet1),
                  col_count = min 50 (col_count sheet1),
                  cells = (if row_values_1 sheet1 \<noteq> [] then [row_values_1 sheet1] else [])\<rparr>])
              \<and> target = length wss1
            else docs w' name = Some wss1 \<and> target = 0))"
proof
  assume a: "init_sheet name cfg w = (Inr target, w')"
  obtain wss wss1 deleted wss2 cs where i: "docs w name = Some wss"
      "evict_oldest wss = Inr (wss1, deleted)"
      "select_worksheet (clock w) (utc_offset w) wss1 = Inr (wss2, target, cs)"
      "docs w' name = Some wss2"
    using init_sheet_Inr [OF a] by blast
  obtain sheet1 rest where c: "wss1 = sheet1 # rest"
    using i(3) by (cases wss1) (auto simp: select_worksheet_def)
  have s: "if cells sheet1 \<noteq> [] then
              wss2 = wss1 @
                [\<lparr>title = ''runs_'' @ strftime_title (datetime_of_seconds (clock w + utc_offset w)),
                  row_count = min 1000 (row_count sheet1),
                  col_count = min 50 (col_count sheet1),
                  cells = (if row_values_1 sheet1 \<noteq> [] then [row_values_1 sheet1] else [])\<rparr>]
              \<and> target = length wss1
            else wss2 = wss1 \<and> target = 0"
    using i(3) unfolding c
    by (auto simp: select_worksheet_def new_sheet_name_def Let_def split: if_split_asm)
  show "\<exists>wss wss1 deleted sheet1 rest.
        docs w name = Some wss \<and> evict_oldest wss = Inr (wss1, deleted) \<and> wss1 = sheet1 # rest
        \<and> (if cells sheet1 \<noteq> [] then
              docs w' name = Some (wss1 @
                [\<lparr>title = ''runs_'' @ strftime_title (datetime_of_seconds (clock w + utc_offset w)),
                  row_count = min 1000 (row_count sheet1),
                  col_count = min 50 (col_count sheet1),
                  cells = (if row_values_1 sheet1 \<noteq> [] then [row_values_1 sheet1] else [])\<rparr>])
              \<and> target = length wss1
            else docs w' name = Some wss1 \<and> target = 0)"
    using i(1,2,4) c s by (intro exI [of _ wss] exI [of _ wss1] exI [of _ deleted]
        exI [of _ sheet1] exI [of _ rest]) (auto split: if_split_asm)
qed

theorem init_sheet_target_witness:
  "init_sheet ''Runs'' example_config example_world
     = (Inr 1, snd (init_sheet ''Runs'' example_config example_world))
   \<and> docs (snd (init_sheet ''Runs'' example_config example_world)) ''Runs''
     = Some [sheet_with_header,
         \<lparr>title = ''runs_20231114_221320'', row_count = 1000, col_count = 26,
           cells = [[''id'', ''ts'', ''user'', ''accuracy'']]\<rparr>]
   \<and> (\<exists>wss wss1 deleted sheet1 rest.
        docs example_world ''Runs'' = Some wss \<and> evict_oldest wss = Inr (wss1, deleted)
        \<and> wss1 = sheet1 # rest
        \<and> (if cells sheet1 \<noteq> [] then
              docs (snd (init_sheet ''Runs'' example_config example_world)) ''Runs'' = Some (wss1 @
                [\<lparr>title = ''runs_'' @ strftime_title
                     (datetime_of_seconds (clock example_world + utc_offset example_world)),
                  row_count = min 1000 (row_count sheet1),
                  col_count = min 50 (col_count sheet1),
                  cells = (if row_values_1 sheet1 \<noteq> [] then [row_values_1 sheet1] else [])\<rparr>])
              \<and> 1 = length wss1
            else docs (snd (init_sheet ''Runs'' example_config example_world)) ''Runs'' = Some wss1
              \<and> (1::nat) = 0))
   \<and> init_sheet ''Runs'' example_config quiet_world
     = (Inr 0, snd (init_sheet ''Runs'' example_config quiet_world))
   \<and> docs (snd (init_sheet ''Runs'' example_config quiet_world)) ''Runs'' = Some [blank_sheet]
   \<and> (\<exists>wss wss1 deleted sheet1 rest.
        docs quiet_world ''Runs'' = Some wss \<and> evict_oldest wss = Inr (wss1, deleted)
        \<and> wss1 = sheet1 # rest
        \<and> (if cells sheet1 \<noteq> [] then
              docs (snd (init_sheet ''Runs'' example_config quiet_world)) ''Runs'' = Some (wss1 @
                [\<lparr>title = ''runs_'' @ strftime_title
                     (datetime_of_seconds (clock quiet_world + utc_offset quiet_world)),
                  row_count = min 1000 (row_count sheet1),
                  col_count = min 50 (col_count sheet1),
                  cells = (if row_values_1 sheet1 \<noteq> [] then [row_values_1 sheet1] else [])\<rparr>])
              \<and> 0 = length wss1
            else docs (snd (init_sheet ''Runs'' example_config quiet_world)) ''Runs'' = Some wss1
              \<and> (0::nat) = 0))"
proof (intro conjI)
  show "init_sheet ''Runs'' example_config example_world
     = (Inr 1, snd (init_sheet ''Runs'' example_config example_world))"
    by (rule init_example_world)
  show "docs (snd (init_sheet ''Runs'' example_config example_world)) ''Runs''
     = Some [sheet_with_header,
         \<lparr>title = ''runs_20231114_221320'', row_count = 1000, col_count = 26,
           cells = [[''id'', ''ts'', ''user'', ''accuracy'']]\<rparr>]"
    by code_simp
  show "\<exists>wss wss1 deleted sheet1 rest.
        docs example_world ''Runs'' = Some wss \<and> evict_oldest wss = Inr (wss1, deleted)
        \<and> wss1 = sheet1 # rest
        \<and> (if cells sheet1 \<noteq> [] then
              docs (snd (init_sheet ''Runs'' example_config example_world)) ''Runs'' = Some (wss1 @
                [\<lparr>title = ''runs_'' @ strftime_title
                     (datetime_of_seconds (clock example_world + utc_offset example_world)),
                  row_count = min 1000 (row_count sheet1),
                  col_count = min 50 (col_count sheet1),
                  cells = (if row_values_1 sheet1 \<noteq> [] then [row_values_1 sheet1] else [])\<rparr>])
              \<and> 1 = length wss1
            else docs (snd (init_sheet ''Runs'' example_config example_world)) ''Runs'' = Some wss1
              \<and> (1::nat) = 0)"
    by (rule init_sheet_target [THEN mp, OF init_example_world])
  show "init_sheet ''Runs'' example_config quiet_world
     = (Inr 0, snd (init_sheet ''Runs'' example_config quiet_world))"
    by (rule init_quiet_world)
  show "docs (snd (init_sheet ''Runs'' example_config quiet_world)) ''Runs'' = Some [blank_sheet]"
    by code_simp
  show "\<exists>wss wss1 deleted sheet1 rest.
        docs quiet_world ''Runs'' = Some wss \<and> evict_oldest wss = Inr (wss1, deleted)
        \<and> wss1 = sheet1 # rest
        \<and> (if cells sheet1 \<noteq> [] then
              docs (snd (init_sheet ''Runs'' example_config quiet_world)) ''Runs'' = Some (wss1 @
                [\<lparr>title = ''runs_'' @ strftime_title
                     (datetime_of_seconds (clock quiet_world + utc_offset quiet_world)),
                  row_count = min 1000 (row_count sheet1),
                  col_count = min 50 (col_count sheet1),
                  cells = (if row_values_1 sheet1 \<noteq> [] then [row_values_1 sheet1] else [])\<rparr>])
              \<and> 0 = length wss1
            else docs (snd (init_sheet ''Runs'' example_config quiet_world)) ''Runs'' = Some wss1
              \<and> (0::nat) = 0)"
    by (rule init_sheet_target [THEN mp, OF init_quiet_world])
qed

section \<open>Properties of a cycle and of the scheduler loop\<close>

lemma process_runs_loop_none:
  assumes "\<forall>r\<in>set R. \<not> (state r = ''running'' \<and> run_id r \<notin> set S \<and> user_name r = U)"
  shows "process_runs_loop utcoff R S hdr U acc = acc"
  using assms by (induction R arbitrary: acc) auto

lemma process_runs_none:
  assumes "\<forall>r\<in>set R. \<not> (state r = ''running'' \<and> run_id r \<notin> set S \<and> user_name r = U)"
  shows "process_runs utcoff R S hdr U = []"
  using process_runs_loop_none [OF assms] by (simp add: process_runs_def)

lemma sync_data_empty: "sync_data name target [] w = (Inr (), w)"
  by (simp add: sync_data_def)

lemma sync_cycle_no_rows:
  assumes "py_getitem cfg ''TEAM_NAME'' = Inr team"
    and "py_getitem cfg ''PROJECT_NAME'' = Inr project"
    and "fetch_runs w team project = Inr R"
    and "docs w (arg_sheet_name a) = Some wss"
    and "first_column (drop 1 (cells (wss ! target))) = Inr S"
    and "py_getitem cfg ''FIXED_HEADERS'' = Inr hdr"
    and "process_runs (utc_offset w) R S hdr (arg_user_name a) = []"
  shows "sync_cycle a cfg target w = (Inr (), write_log NoNewRuns w)"
  using assms by (simp add: sync_cycle_def)

text \<open>
  C4. When no run qualifies, \<open>process_runs\<close> returns the empty list; \<open>sync_data\<close> with an
  empty batch makes no call and leaves everything as it is; and the part of a
  cycle that follows \<open>init_sheet\<close> then ends normally with the log line
  \<open>No new runs to add\<close>, without any call to the spreadsheet and without any change to
  its worksheets.
\<close>

theorem no_qualifying_run_no_write:
  "((\<forall>r\<in>set R. \<not> (state r = ''running'' \<and> run_id r \<notin> set S \<and> user_name r = U)) \<longrightarrow>
      process_runs utcoff R S hdr U = [])
   \<and> sync_data name target [] w = (Inr (), w)
   \<and> (py_getitem cfg ''TEAM_NAME'' = Inr team \<and> py_getitem cfg ''PROJECT_NAME'' = Inr project
       \<and> fetch_runs w team project = Inr R \<and> docs w (arg_sheet_name a) = Some wss
       \<and> first_column (drop 1 (cells (wss ! target))) = Inr S
       \<and> py_getitem cfg ''FIXED_HEADERS'' = Inr hdr
       \<and> (\<forall>r\<in>set R. \<not> (state r = ''running'' \<and> run_id r \<notin> set S \<and> user_name r = arg_user_name a))
       \<longrightarrow> sync_cycle a cfg target w = (Inr (), write_log NoNewRuns w)
           \<and> docs (write_log NoNewRuns w) = docs w
           \<and> calls (write_log NoNewRuns w) = calls w)"
proof (intro conjI)
  show "(\<forall>r\<in>set R. \<not> (state r = ''running'' \<and> run_id r \<notin> set S \<and> user_name r = U)) \<longrightarrow>
      process_runs utcoff R S hdr U = []"
    using process_runs_none by blast
  show "sync_data name target [] w = (Inr (), w)"
    by (rule sync_data_empty)
  show "py_getitem cfg ''TEAM_NAME'' = Inr team \<and> py_getitem cfg ''PROJECT_NAME'' = Inr project
       \<and> fetch_runs w team project = Inr R \<and> docs w (arg_sheet_name a) = Some wss
       \<and> first_column (drop 1 (cells (wss ! target))) = Inr S
       \<and> py_getitem cfg ''FIXED_HEADERS'' = Inr hdr
       \<and> (\<forall>r\<in>set R. \<not> (state r = ''running'' \<and> run_id r \<notin> set S \<and> user_name r = arg_user_name a))
       \<longrightarrow> sync_cycle a cfg target w = (Inr (), write_log NoNewRuns w)
           \<and> docs (write_log NoNewRuns w) = docs w
           \<and> calls (write_log NoNewRuns w) = calls w"
  proof
    assume h: "py_getitem cfg ''TEAM_NAME'' = Inr team \<and> py_getitem cfg ''PROJECT_NAME'' = Inr project
       \<and> fetch_runs w team project = Inr R \<and> docs w (arg_sheet_name a) = Some wss
       \<and> first_column (drop 1 (cells (wss ! target))) = Inr S
       \<and> py_getitem cfg ''FIXED_HEADERS'' = Inr hdr
       \<and> (\<forall>r\<in>set R. \<not> (state r = ''running'' \<and> run_id r \<notin> set S \<and> user_name r = arg_user_name a))"
    then have n: "process_runs (utc_offset w) R S hdr (arg_user_name a) = []"
      using process_runs_none by blast
    have "sync_cycle a cfg target w = (Inr (), write_log NoNewRuns w)"
      by (rule sync_cycle_no_rows [OF h [THEN conjunct1] h [THEN conjunct2, THEN conjunct1]
            h [THEN conjunct2, THEN conjunct2, THEN conjunct1]
            h [THEN conjunct2, THEN conjunct2, THEN conjunct2, THEN conjunct1]
            h [THEN conjunct2, THEN conjunct2, THEN conjunct2, THEN conjunct2, THEN conjunct1]
            h [THEN conjunct2, THEN conjunct2, THEN conjunct2, THEN conjunct2, THEN conjunct2,
               THEN conjunct1] n])
    then show "sync_cycle a cfg target w = (Inr (), write_log NoNewRuns w)
           \<and> docs (write_log NoNewRuns w) = docs w
           \<and> calls (write_log NoNewRuns w) = calls w"
      by (simp add: write_log_def)
  qed
qed

theorem no_qualifying_run_no_write_witness:
  "process_runs 0 [run_done] [] example_headers ''kim'' = []
   \<and> py_getitem example_config ''TEAM_NAME'' = Inr (JStr ''lab'')
   \<and> py_getitem example_config ''PROJECT_NAME'' = Inr (JStr ''demo'')
   \<and> fetch_runs quiet_world (JStr ''lab'') (JStr ''demo'') = Inr [run_done]
   \<and> docs quiet_world (arg_sheet_name example_args) = Some [blank_sheet]
   \<and> first_column (drop 1 (cells ([blank_sheet] ! 0))) = Inr []
   \<and> py_getitem example_config ''FIXED_HEADERS'' = Inr example_headers
   \<and> sync_cycle example_args example_config 0 quiet_world
       = (Inr (), write_log NoNewRuns quiet_world)
   \<and> calls (write_log NoNewRuns quiet_world) = calls quiet_world"
proof -
  note t = no_qualifying_run_no_write [of "[run_done]" "[]" "''kim''" 0 example_headers
      "''Runs''" 0 quiet_world example_config "JStr ''lab''" "JStr ''demo''" example_args
      "[blank_sheet]"]
  have q: "\<forall>r\<in>set [run_done]. \<not> (state r = ''running'' \<and> run_id r \<notin> set [] \<and> user_name r = ''kim'')"
    by (simp add: run_done_def)
  have q': "\<forall>r\<in>set [run_done]. \<not> (state r = ''running'' \<and> run_id r \<notin> set []
      \<and> user_name r = arg_user_name example_args)"
    by (simp add: run_done_def)
  have p: "process_runs 0 [run_done] [] example_headers ''kim'' = []"
    using t [THEN conjunct1] q by (rule mp)
  have h1: "py_getitem example_config ''TEAM_NAME'' = Inr (JStr ''lab'')" by code_simp
  have h2: "py_getitem example_config ''PROJECT_NAME'' = Inr (JStr ''demo'')" by code_simp
  have h3: "fetch_runs quiet_world (JStr ''lab'') (JStr ''demo'') = Inr [run_done]"
    by (simp add: quiet_world_def)
  have h4: "docs quiet_world (arg_sheet_name example_args) = Some [blank_sheet]"
    by (simp add: quiet_world_def example_args_def)
  have h5: "first_column (drop 1 (cells ([blank_sheet] ! 0))) = Inr []"
    by (simp add: blank_sheet_def)
  have h6: "py_getitem example_config ''FIXED_HEADERS'' = Inr example_headers"
    by (simp add: example_config_def)
  have c: "sync_cycle example_args example_config 0 quiet_world
       = (Inr (), write_log NoNewRuns quiet_world)
     \<and> docs (write_log NoNewRuns quiet_world) = docs quiet_world
     \<and> calls (write_log NoNewRuns quiet_world) = calls quiet_world"
    using t [THEN conjunct2, THEN conjunct2] h1 h2 h3 h4 h5 h6 q' by blast
  show ?thesis
    using p h1 h2 h3 h4 h5 h6 c by blast
qed

lemma select_worksheet_no_load:
  assumes "select_worksheet now utcoff wss = Inr (wss', target, cs)"
  shows "count_list cs LoadConfig = 0"
  using assms
  by (auto simp: select_worksheet_def Let_def split: list.split_asm if_split_asm)

lemma select_worksheet_length:
  assumes "select_worksheet now utcoff wss = Inr (wss', target, cs)"
  shows "target < length wss' \<and> length wss \<le> length wss'"
  using assms
  by (auto simp: select_worksheet_def Let_def split: list.split_asm if_split_asm)

lemma init_sheet_loads:
  "count_list (calls (snd (init_sheet name cfg w))) LoadConfig = count_list (calls w) LoadConfig"
proof (cases "init_sheet name cfg w")
  case (Pair res w')
  show ?thesis
  proof (cases res)
    case (Inr target)
    obtain wss wss1 deleted wss2 cs where i:
        "select_worksheet (clock w) (utc_offset w) wss1 = Inr (wss2, target, cs)"
        "calls w' = calls w @ (case deleted of None \<Rightarrow> [] | Some t \<Rightarrow> [DeleteWorksheet t]) @ cs"
      using init_sheet_Inr [of name cfg w target w'] Pair Inr by blast
    have "count_list cs LoadConfig = 0"
      using i(1) by (rule select_worksheet_no_load)
    then show ?thesis
      using i(2) Pair by (simp add: count_list_append split: option.split)
  next
    case (Inl e)
    then show ?thesis
      using Pair
      apply (simp add: init_sheet_def init_sheet_try_def Let_def record_call_def write_log_def
          split: sum.split_asm option.split_asm file_result.split_asm prod.split_asm)
      apply (auto simp: count_list_append dest: select_worksheet_no_load)
      done
  qed
qed

lemma sync_cycle_loads:
  "count_list (calls (snd (sync_cycle a cfg target w))) LoadConfig = count_list (calls w) LoadConfig"
  by (simp add: sync_cycle_def sync_data_def append_rows_def record_call_def write_log_def Let_def
      count_list_append split: sum.split option.split prod.split)

lemma main_try_loads:
  "count_list (calls (snd (main_try a w))) LoadConfig = count_list (calls w) LoadConfig + 1"
proof -
  let ?w0 = "record_call LoadConfig w"
  have w0: "count_list (calls ?w0) LoadConfig = count_list (calls w) LoadConfig + 1"
    by (simp add: record_call_def count_list_append)
  show ?thesis
  proof (cases "load_config (read_json w (JStr (arg_config_path a)))")
    case (Inl e)
    then show ?thesis using w0 by (simp add: main_try_def Let_def)
  next
    case (Inr cfg)
    obtain res w1 where i: "init_sheet (arg_sheet_name a) cfg ?w0 = (res, w1)"
      by (cases "init_sheet (arg_sheet_name a) cfg ?w0") auto
    have w1: "count_list (calls w1) LoadConfig = count_list (calls w) LoadConfig + 1"
      using init_sheet_loads [of "arg_sheet_name a" cfg ?w0] i w0 by simp
    show ?thesis
    proof (cases res)
      case (Inl e)
      then show ?thesis using Inr i w1 by (simp add: main_try_def Let_def)
    next
      case (Inr target)
      have "main_try a w = sync_cycle a cfg target w1"
        using \<open>load_config (read_json w (JStr (arg_config_path a))) = Inr cfg\<close> i Inr
        by (simp add: main_try_def Let_def)
      then show ?thesis using sync_cycle_loads [of a cfg target w1] w1 by simp
    qed
  qed
qed

lemma main_loads:
  "count_list (calls (snd (main a w))) LoadConfig = count_list (calls w) LoadConfig + 1"
  using main_try_loads [of a w]
  by (cases "main_try a w") (auto simp: main_def write_log_def split: sum.split)

lemma loop_iteration_loads:
  "count_list (calls (snd (loop_iteration a t w))) LoadConfig
     = count_list (calls w) LoadConfig + (if fire_at t = None then 0 else 1)"
proof (cases "fire_at t")
  case None
  then show ?thesis
    by (simp add: loop_iteration_def run_pending_def write_log_def)
next
  case (Some now)
  have "count_list (calls (snd (main a (w\<lparr>clock := now\<rparr>)))) LoadConfig
      = count_list (calls w) LoadConfig + 1"
    using main_loads [of a "w\<lparr>clock := now\<rparr>"] by simp
  then show ?thesis
    using Some
    by (cases "main a (w\<lparr>clock := now\<rparr>)")
      (auto simp: loop_iteration_def run_pending_def write_log_def Let_def split: sum.split)
qed

lemma scheduler_loop_loads:
  assumes "fst (scheduler_loop a ts w) = InLoop"
  shows "count_list (calls (snd (scheduler_loop a ts w))) LoadConfig
     = count_list (calls w) LoadConfig + length (filter (\<lambda>t. fire_at t \<noteq> None) ts)"
  using assms
proof (induction ts arbitrary: w)
  case Nil
  show ?case by simp
next
  case (Cons t ts)
  obtain st w' where it: "loop_iteration a t w = (st, w')"
    by (cases "loop_iteration a t w") auto
  have st: "st = InLoop"
    using Cons.prems it by (cases st) auto
  have l: "count_list (calls w') LoadConfig
      = count_list (calls w) LoadConfig + (if fire_at t = None then 0 else 1)"
    using loop_iteration_loads [of a t w] it by simp
  have "fst (scheduler_loop a ts w') = InLoop"
    using Cons.prems it st by simp
  then have "count_list (calls (snd (scheduler_loop a ts w'))) LoadConfig
      = count_list (calls w') LoadConfig + length (filter (\<lambda>t. fire_at t \<noteq> None) ts)"
    by (rule Cons.IH)
  then show ?case using it st l by simp
qed

lemma script_loads:
  assumes "fst (script a ts w) = InLoop"
  shows "count_list (calls (snd (script a ts w))) LoadConfig
     = count_list (calls w) LoadConfig + 1 + length (filter (\<lambda>t. fire_at t \<noteq> None) ts)"
proof (cases "load_config (read_json w (JStr (arg_config_path a)))")
  case (Inl e)
  then show ?thesis using assms by (simp add: script_def Let_def)
next
  case (Inr cfg)
  then have s: "script a ts w = scheduler_loop a ts (record_call LoadConfig w)"
    by (simp add: script_def Let_def)
  have "count_list (calls (snd (scheduler_loop a ts (record_call LoadConfig w)))) LoadConfig
      = count_list (calls (record_call LoadConfig w)) LoadConfig
          + length (filter (\<lambda>t. fire_at t \<noteq> None) ts)"
    using assms s by (intro scheduler_loop_loads) simp
  then show ?thesis using s by (simp add: record_call_def count_list_append)
qed

lemma map_title_update:
  "map title (wss[target := (wss ! target)\<lparr>cells := c\<rparr>]) = map title wss"
proof (rule nth_equalityI)
  show "length (map title (wss[target := (wss ! target)\<lparr>cells := c\<rparr>])) = length (map title wss)"
    by simp
next
  fix i
  assume "i < length (map title (wss[target := (wss ! target)\<lparr>cells := c\<rparr>]))"
  then have i: "i < length wss" by simp
  show "map title (wss[target := (wss ! target)\<lparr>cells := c\<rparr>]) ! i = map title wss ! i"
    using i by (cases "i = target") simp_all
qed

lemma sync_cycle_titles:
  assumes "sync_cycle a cfg target w = (res, w')" "docs w (arg_sheet_name a) = Some wss"
  shows "\<exists>wss'. docs w' (arg_sheet_name a) = Some wss' \<and> map title wss' = map title wss"
  using assms
  by (auto simp: sync_cycle_def sync_data_def append_rows_def record_call_def write_log_def
      Let_def map_title_update
      split: sum.split_asm option.split_asm prod.split_asm if_split_asm)

lemma main_adds_worksheet:
  assumes m: "main a w = (Inr u, w')"
    and d: "docs w (arg_sheet_name a) = Some (sheet1 # rest)"
    and l: "length (sheet1 # rest) < 100"
    and c: "cells sheet1 \<noteq> []"
  shows "\<exists>wss'. docs w' (arg_sheet_name a) = Some wss'
           \<and> map title wss' = map title (sheet1 # rest) @ [new_sheet_name (clock w) (utc_offset w)]"
proof -
  let ?w0 = "record_call LoadConfig w"
  have mt: "main_try a w = (Inr u, w')"
    using m by (cases "main_try a w") (auto simp: main_def split: sum.split_asm)
  obtain cfg where cfg: "load_config (read_json w (JStr (arg_config_path a))) = Inr cfg"
    using mt by (cases "load_config (read_json w (JStr (arg_config_path a)))")
      (auto simp: main_try_def Let_def)
  obtain target w1 where i: "init_sheet (arg_sheet_name a) cfg ?w0 = (Inr target, w1)"
    and s: "sync_cycle a cfg target w1 = (Inr u, w')"
    using mt cfg
    by (cases "init_sheet (arg_sheet_name a) cfg ?w0")
      (auto simp: main_try_def Let_def split: sum.split_asm)
  obtain wss wss1 deleted wss2 cs where j: "docs ?w0 (arg_sheet_name a) = Some wss"
      "evict_oldest wss = Inr (wss1, deleted)"
      "select_worksheet (clock ?w0) (utc_offset ?w0) wss1 = Inr (wss2, target, cs)"
      "docs w1 (arg_sheet_name a) = Some wss2"
    using init_sheet_Inr [OF i] by blast
  have w: "wss = sheet1 # rest"
    using j(1) d by (simp add: record_call_def)
  have w1: "wss1 = sheet1 # rest"
    using j(2) l unfolding w by (simp add: evict_oldest_def)
  have t: "map title wss2 = map title (sheet1 # rest) @ [new_sheet_name (clock w) (utc_offset w)]"
    using j(3) c unfolding w1
    by (auto simp: select_worksheet_def Let_def record_call_def split: if_split_asm)
  obtain wss' where "docs w' (arg_sheet_name a) = Some wss'" "map title wss' = map title wss2"
    using sync_cycle_titles [OF s j(4)] by blast
  then show ?thesis using t by simp
qed

text \<open>
  C6, as the code has it. Startup and two cycles in a world where everything
  works: the configuration is loaded three times, and each cycle creates a
  worksheet of its own.
\<close>

theorem reload_every_cycle_counterexample:
  "fst (script example_args [fire 1700001800, fire 1700003600] example_world) = InLoop
   \<and> calls (snd (script example_args [fire 1700001800, fire 1700003600] example_world))
     = [LoadConfig,
        LoadConfig, AddWorksheet ''runs_20231114_224320'' 1000 26,
        AppendRow ''runs_20231114_224320'' [''id'', ''ts'', ''user'', ''accuracy''],
        AppendRows ''runs_20231114_224320'' [[''a1'', ''2023-11-14 22:13:20'', ''kim'', ''0.91'']],
        LoadConfig, AddWorksheet ''runs_20231114_231320'' 1000 26,
        AppendRow ''runs_20231114_231320'' [''id'', ''ts'', ''user'', ''accuracy''],
        AppendRows ''runs_20231114_231320'' [[''a1'', ''2023-11-14 22:13:20'', ''kim'', ''0.91'']]]
   \<and> count_list [LoadConfig,
        LoadConfig, AddWorksheet ''runs_20231114_224320'' 1000 26,
        AppendRow ''runs_20231114_224320'' [''id'', ''ts'', ''user'', ''accuracy''],
        AppendRows ''runs_20231114_224320'' [[''a1'', ''2023-11-14 22:13:20'', ''kim'', ''0.91'']],
        LoadConfig, AddWorksheet ''runs_20231114_231320'' 1000 26,
        AppendRow ''runs_20231114_231320'' [''id'', ''ts'', ''user'', ''accuracy''],
        AppendRows ''runs_20231114_231320'' [[''a1'', ''2023-11-14 22:13:20'', ''kim'', ''0.91'']]]
       LoadConfig \<noteq> 1"
proof (intro conjI)
  show "fst (script example_args [fire 1700001800, fire 1700003600] example_world) = InLoop"
    by code_simp
  show "calls (snd (script example_args [fire 1700001800, fire 1700003600] example_world))
     = [LoadConfig,
        LoadConfig, AddWorksheet ''runs_20231114_224320'' 1000 26,
        AppendRow ''runs_20231114_224320'' [''id'', ''ts'', ''user'', ''accuracy''],
        AppendRows ''runs_20231114_224320'' [[''a1'', ''2023-11-14 22:13:20'', ''kim'', ''0.91'']],
        LoadConfig, AddWorksheet ''runs_20231114_231320'' 1000 26,
        AppendRow ''runs_20231114_231320'' [''id'', ''ts'', ''user'', ''accuracy''],
        AppendRows ''runs_20231114_231320'' [[''a1'', ''2023-11-14 22:13:20'', ''kim'', ''0.91'']]]"
    by code_simp
  show "count_list [LoadConfig,
        LoadConfig, AddWorksheet ''runs_20231114_224320'' 1000 26,
        AppendRow ''runs_20231114_224320'' [''id'', ''ts'', ''user'', ''accuracy''],
        AppendRows ''runs_20231114_224320'' [[''a1'', ''2023-11-14 22:13:20'', ''kim'', ''0.91'']],
        LoadConfig, AddWorksheet ''runs_20231114_231320'' 1000 26,
        AppendRow ''runs_20231114_231320'' [''id'', ''ts'', ''user'', ''accuracy''],
        AppendRows ''runs_20231114_231320'' [[''a1'', ''2023-11-14 22:13:20'', ''kim'', ''0.91'']]]
       LoadConfig \<noteq> 1"
    by simp
qed

text \<open>
  C6, amended. The configuration is loaded once at startup and once more at the
  start of every cycle: while the script is in its loop, the number of loads is
  one more than the number of cycles run. Every cycle runs \<open>init_sheet\<close> again, and
  each cycle that ends normally after finding rows in the first worksheet (of a
  spreadsheet below the worksheet limit) leaves one more worksheet, titled
  \<open>runs_\<close> followed by the time of that cycle. Runs and rows are derived anew in
  every cycle.
\<close>

theorem reload_every_cycle:
  "(fst (script a ts w) = InLoop \<longrightarrow>
      count_list (calls (snd (script a ts w))) LoadConfig
        = count_list (calls w) LoadConfig + 1 + length (filter (\<lambda>t. fire_at t \<noteq> None) ts))
   \<and> (\<forall>u w'. main a w = (Inr u, w') \<and> docs w (arg_sheet_name a) = Some (sheet1 # rest)
         \<and> length (sheet1 # rest) < 100 \<and> cells sheet1 \<noteq> [] \<longrightarrow>
         (\<exists>wss'. docs w' (arg_sheet_name a) = Some wss'
            \<and> map title wss'
                = map title (sheet1 # rest) @ [new_sheet_name (clock w) (utc_offset w)]))"
proof (intro conjI allI impI)
  assume "fst (script a ts w) = InLoop"
  then show "count_list (calls (snd (script a ts w))) LoadConfig
        = count_list (calls w) LoadConfig + 1 + length (filter (\<lambda>t. fire_at t \<noteq> None) ts)"
    by (rule script_loads)
next
  fix u w'
  assume h: "main a w = (Inr u, w') \<and> docs w (arg_sheet_name a) = Some (sheet1 # rest)
         \<and> length (sheet1 # rest) < 100 \<and> cells sheet1 \<noteq> []"
  show "\<exists>wss'. docs w' (arg_sheet_name a) = Some wss'
            \<and> map title wss'
                = map title (sheet1 # rest) @ [new_sheet_name (clock w) (utc_offset w)]"
    by (rule main_adds_worksheet [OF h [THEN conjunct1] h [THEN conjunct2, THEN conjunct1]
          h [THEN conjunct2, THEN conjunct2, THEN conjunct1]
          h [THEN conjunct2, THEN conjunct2, THEN conjunct2]])
qed

lemma script_example_in_loop:
  "fst (script example_args [fire 1700001800, idle, fire 1700003600] example_world) = InLoop"
  by code_simp

lemma main_example_world:
  "main example_args example_world = (Inr (), snd (main example_args example_world))"
proof -
  have "fst (main example_args example_world) = Inr ()"
    by code_simp
  then show ?thesis by (metis prod.collapse)
qed

lemma example_world_sheets:
  "docs example_world (arg_sheet_name example_args) = Some (sheet_with_header # [])
   \<and> length (sheet_with_header # []) < 100 \<and> cells sheet_with_header \<noteq> []"
  by code_simp

theorem reload_every_cycle_witness:
  "fst (script example_args [fire 1700001800, idle, fire 1700003600] example_world) = InLoop
   \<and> count_list (calls (snd (script example_args [fire 1700001800, idle, fire 1700003600]
          example_world))) LoadConfig
       = count_list (calls example_world) LoadConfig + 1
           + length (filter (\<lambda>t. fire_at t \<noteq> None) [fire 1700001800, idle, fire 1700003600])
   \<and> main example_args example_world = (Inr (), snd (main example_args example_world))
   \<and> docs example_world (arg_sheet_name example_args) = Some (sheet_with_header # [])
   \<and> length (sheet_with_header # []) < 100 \<and> cells sheet_with_header \<noteq> []
   \<and> (\<exists>wss'. docs (snd (main example_args example_world)) (arg_sheet_name example_args) = Some wss'
         \<and> map title wss' = map title (sheet_with_header # [])
             @ [new_sheet_name (clock example_world) (utc_offset example_world)])"
proof -
  note t1 = reload_every_cycle [of example_args "[fire 1700001800, idle, fire 1700003600]"
      example_world sheet_with_header "[]", THEN conjunct1, THEN mp, OF script_example_in_loop]
  note t2 = reload_every_cycle [of example_args "[fire 1700001800, idle, fire 1700003600]"
      example_world sheet_with_header "[]", THEN conjunct2, THEN spec, THEN spec, THEN mp,
      OF conjI, OF main_example_world example_world_sheets]
  show ?thesis
    using script_example_in_loop t1 main_example_world example_world_sheets t2
    by (intro conjI) (erule conjunct1 conjunct2 | assumption | (drule conjunct2, erule conjunct1)
        | (drule conjunct2, erule conjunct2))+
qed

lemma loop_iteration_logs_error:
  assumes "run_pending a t w = (Inl e, w')"
  shows "log (snd (loop_iteration a t w)) = log w' @ [UnexpectedError e]"
  using assms by (simp add: loop_iteration_def write_log_def Let_def)

lemma loop_iteration_survives:
  assumes "\<not> sigint_in_sleep t" "\<not> sigint_in_retry_sleep t"
  shows "fst (loop_iteration a t w) = InLoop"
  using assms
  by (cases "run_pending a t w") (auto simp: loop_iteration_def Let_def split: sum.split)

lemma scheduler_loop_survives:
  assumes "\<forall>t\<in>set ts. \<not> sigint_in_sleep t \<and> \<not> sigint_in_retry_sleep t"
  shows "fst (scheduler_loop a ts w) = InLoop"
  using assms
proof (induction ts arbitrary: w)
  case Nil
  show ?case by simp
next
  case (Cons t ts)
  obtain st w' where it: "loop_iteration a t w = (st, w')"
    by (cases "loop_iteration a t w") auto
  have "st = InLoop"
    using loop_iteration_survives [of t a w] Cons.prems it by simp
  then show ?case using it Cons by simp
qed

lemma loop_iteration_Exited:
  assumes "fst (loop_iteration a t w) = Exited"
  shows "sigint_in_sleep t"
  using assms
  by (cases "run_pending a t w")
    (auto simp: loop_iteration_def Let_def split: sum.split_asm if_split_asm)

lemma scheduler_loop_Exited:
  assumes "fst (scheduler_loop a ts w) = Exited"
  shows "\<exists>t\<in>set ts. sigint_in_sleep t"
  using assms
proof (induction ts arbitrary: w)
  case Nil
  then show ?case by simp
next
  case (Cons t ts)
  obtain st w' where it: "loop_iteration a t w = (st, w')"
    by (cases "loop_iteration a t w") auto
  show ?case
  proof (cases st)
    case InLoop
    then have "fst (scheduler_loop a ts w') = Exited"
      using Cons.prems it by simp
    then have "\<exists>t\<in>set ts. sigint_in_sleep t" by (rule Cons.IH)
    then show ?thesis by auto
  next
    case Exited
    then have "sigint_in_sleep t"
      using loop_iteration_Exited [of a t w] it by simp
    then show ?thesis by simp
  next
    case (Uncaught x)
    then show ?thesis using Cons.prems it by simp
  qed
qed

lemma interrupt_during_sleep:
  "fst (script example_args
         [\<lparr>fire_at = None, sigint_in_sleep = True, sigint_in_retry_sleep = False\<rparr>]
         example_world) = Exited
   \<and> log (snd (script example_args
         [\<lparr>fire_at = None, sigint_in_sleep = True, sigint_in_retry_sleep = False\<rparr>]
         example_world)) = [StoppedByUser]"
  by code_simp

text \<open>
  C8, as the code has it. A cycle fails (the spreadsheet does not exist), the loop
  catches and logs the error and goes to sleep for a minute before it tries
  again; the interrupt signal arrives during that sleep, which is inside the
  handler and outside the \<open>try\<close>: the process dies of an uncaught
  \<open>KeyboardInterrupt\<close>, without the line \<open>Sync process stopped by user\<close>.
\<close>

theorem interrupt_during_retry_sleep:
  "fst (script example_args
         [\<lparr>fire_at = Some 1700001800, sigint_in_sleep = False, sigint_in_retry_sleep = True\<rparr>]
         world_without_spreadsheet) = Uncaught KeyboardInterrupt
   \<and> log (snd (script example_args
         [\<lparr>fire_at = Some 1700001800, sigint_in_sleep = False, sigint_in_retry_sleep = True\<rparr>]
         world_without_spreadsheet))
     = [ErrorInMain (SheetError (SpreadsheetNotFoundNamed ''Runs'')),
        UnexpectedError (SheetError (SpreadsheetNotFoundNamed ''Runs''))]"
proof
  show "fst (script example_args
         [\<lparr>fire_at = Some 1700001800, sigint_in_sleep = False, sigint_in_retry_sleep = True\<rparr>]
         world_without_spreadsheet) = Uncaught KeyboardInterrupt"
    by code_simp
  show "log (snd (script example_args
         [\<lparr>fire_at = Some 1700001800, sigint_in_sleep = False, sigint_in_retry_sleep = True\<rparr>]
         world_without_spreadsheet))
     = [ErrorInMain (SheetError (SpreadsheetNotFoundNamed ''Runs'')),
        UnexpectedError (SheetError (SpreadsheetNotFoundNamed ''Runs''))]"
    by code_simp
qed

end
